theory Spec2Isabelle
  imports Main "HOL-Library.Multiset"
begin

section \<open>Errors\<close>

text \<open>
  Every exception the program can raise is a value. The two \<open>ValueError\<close>s of
  \<open>gerador_escala.py\<close> are told apart by their message: the constructor's
  ("A lista de diaconos nao pode estar vazia", the spec's ConfigurationError) and the one of
  \<open>_sortear_diacono\<close> ("Nao ha diaconos disponiveis para sorteio", the spec's
  EmptyPoolError). The others come from the Python library: \<open>date(y, m, d)\<close> outside
  its range, an argument of \<open>date\<close> that does not fit a C \<open>int\<close>, date arithmetic
  leaving \<open>date.min .. date.max\<close>, \<open>random.choice\<close> on an empty sequence,
  \<open>list.remove\<close> of an absent element, and a dictionary read at a missing key.
\<close>

datatype error =
    ValueError_lista_vazia
  | ValueError_sem_disponiveis
  | ValueError_date_out_of_range
  | OverflowError_c_int
  | OverflowError_date_out_of_range
  | IndexError_empty_sequence
  | ValueError_not_in_list
  | KeyError string

section \<open>Python's \<open>datetime.date\<close>\<close>

text \<open>
  A \<open>date\<close> is represented by its proleptic Gregorian ordinal (\<open>date.toordinal()\<close>:
  day 1 is 0001-01-01), which determines the date and orders dates as Python compares them.
  The definitions follow the library's own: \<open>_is_leap\<close>, \<open>_days_before_year\<close>,
  \<open>_days_in_month\<close>, \<open>_days_before_month\<close>, \<open>_ymd2ord\<close>, the range check of
  the constructor, \<open>weekday\<close> (0 = Monday, 6 = Sunday) and \<open>date + timedelta(days=k)\<close>,
  which raises OverflowError outside \<open>1 .. date.max.toordinal()\<close>. The constructor
  of CPython reads its three arguments as C \<open>int\<close>s before it checks their range: an
  argument outside \<open>INT_MIN .. INT_MAX\<close> raises OverflowError, and only an argument
  that fits and is out of range raises ValueError.
\<close>

type_synonym date = int

definition MINYEAR :: int where
  "MINYEAR = 1"

definition MAXYEAR :: int where
  "MAXYEAR = 9999"

definition MAXORDINAL :: int where
  "MAXORDINAL = 3652059"

definition is_leap :: "int \<Rightarrow> bool" where
  "is_leap year = (year mod 4 = 0 \<and> (year mod 100 \<noteq> 0 \<or> year mod 400 = 0))"

definition days_before_year :: "int \<Rightarrow> int" where
  "days_before_year year =
     (let y = year - 1 in y * 365 + y div 4 - y div 100 + y div 400)"

definition DAYS_IN_MONTH :: "int list" where
  "DAYS_IN_MONTH = [31, 28, 31, 30, 31, 30, 31, 31, 30, 31, 30, 31]"

definition days_in_month :: "int \<Rightarrow> int \<Rightarrow> int" where
  "days_in_month year month =
     (if month = 2 \<and> is_leap year then 29 else DAYS_IN_MONTH ! nat (month - 1))"

definition days_before_month :: "int \<Rightarrow> int \<Rightarrow> int" where
  "days_before_month year month =
     sum_list (take (nat (month - 1)) DAYS_IN_MONTH)
       + (if month > 2 \<and> is_leap year then 1 else 0)"

definition ymd2ord :: "int \<Rightarrow> int \<Rightarrow> int \<Rightarrow> int" where
  "ymd2ord year month day = days_before_year year + days_before_month year month + day"

definition INT_MIN :: int where
  "INT_MIN = - 2147483648"

definition INT_MAX :: int where
  "INT_MAX = 2147483647"

definition py_date :: "int \<Rightarrow> int \<Rightarrow> int \<Rightarrow> error + date" where
  "py_date year month day =
     (if \<not> (INT_MIN \<le> year \<and> year \<le> INT_MAX) then Inl OverflowError_c_int
      else if \<not> (INT_MIN \<le> month \<and> month \<le> INT_MAX) then Inl OverflowError_c_int
      else if \<not> (INT_MIN \<le> day \<and> day \<le> INT_MAX) then Inl OverflowError_c_int
      else if \<not> (MINYEAR \<le> year \<and> year \<le> MAXYEAR) then Inl ValueError_date_out_of_range
      else if \<not> (1 \<le> month \<and> month \<le> 12) then Inl ValueError_date_out_of_range
      else if \<not> (1 \<le> day \<and> day \<le> days_in_month year month)
        then Inl ValueError_date_out_of_range
      else Inr (ymd2ord year month day))"

definition weekday :: "date \<Rightarrow> int" where
  "weekday d = (d + 6) mod 7"

definition date_add :: "date \<Rightarrow> int \<Rightarrow> error + date" where
  "date_add d days =
     (let ordinal = d + days
      in if 0 < ordinal \<and> ordinal \<le> MAXORDINAL then Inr ordinal
         else Inl OverflowError_date_out_of_range)"

text \<open>January 1 and December 31 of a year, as \<open>date(ano, 1, 1)\<close> and \<open>date(ano, 12, 31)\<close>.\<close>

definition primeiro_dia :: "int \<Rightarrow> date" where
  "primeiro_dia ano = ymd2ord ano 1 1"

definition ultimo_dia :: "int \<Rightarrow> date" where
  "ultimo_dia ano = ymd2ord ano 12 31"

section \<open>The process-wide random source\<close>

text \<open>
  The module \<open>random\<close> is not part of the repository. Its generator is modelled as an
  arbitrary infinite sequence of raw draws and a cursor: \<open>random.choice(seq)\<close> raises
  IndexError on an empty sequence, and otherwise consumes one draw \<open>r\<close> and returns
  \<open>seq[r mod len(seq)]\<close>. Every sequence of indices a generator can select is the
  behaviour of some sequence of raw draws, so a statement about all sequences covers every
  seed. \<open>random.seed\<close> is a parameter \<open>seeder\<close> of the constructor: the state a
  seed determines.
\<close>

record random_state =
  draws :: "nat \<Rightarrow> nat"
  cursor :: nat

definition random_choice :: "'a list \<Rightarrow> random_state \<Rightarrow> (error + 'a) \<times> random_state" where
  "random_choice seq g =
     (if seq = [] then (Inl IndexError_empty_sequence, g)
      else (Inr (seq ! (draws g (cursor g) mod length seq)), g\<lparr>cursor := Suc (cursor g)\<rparr>))"

section \<open>The data model\<close>

record DiaconoEscala =
  nome :: string
  funcao :: string
  dia :: string
  data :: "date option"

record gerador =
  lista_diaconos :: "string list"
  escala_gerada :: "DiaconoEscala list"
  chaves_usadas :: "string list"
  chave_semanal :: "date \<rightharpoonup> string"

text \<open>
  The state a method runs in: the generator instance and the process-wide random source.
  A method returns its result or the exception it raised, together with the state as the
  method left it: what was assigned before a raise stays assigned.
\<close>

type_synonym estado = "gerador \<times> random_state"

definition DIAS_ESCALA :: "string list" where
  "DIAS_ESCALA = [''domingo'', ''quarta'', ''sabado'']"

definition MAPA_DIAS_SEMANA :: "string \<rightharpoonup> int" where
  "MAPA_DIAS_SEMANA = [''domingo'' \<mapsto> 6, ''quarta'' \<mapsto> 2, ''sabado'' \<mapsto> 5]"

section \<open>Construction\<close>

definition init :: "(int \<Rightarrow> random_state) \<Rightarrow> string list \<Rightarrow> int option \<Rightarrow> random_state
    \<Rightarrow> error + estado" where
  "init seeder lista seed g =
     (if lista = [] then Inl ValueError_lista_vazia
      else Inr (\<lparr>lista_diaconos = lista, escala_gerada = [], chaves_usadas = [],
                 chave_semanal = Map.empty\<rparr>,
                (case seed of None \<Rightarrow> g | Some s \<Rightarrow> seeder s)))"

section \<open>Draws\<close>

definition sortear_diacono :: "string list \<Rightarrow> random_state \<Rightarrow> (error + string) \<times> random_state" where
  "sortear_diacono diaconos_disponiveis g =
     (if diaconos_disponiveis = [] then (Inl ValueError_sem_disponiveis, g)
      else random_choice diaconos_disponiveis g)"

definition remover_diacono :: "string list \<Rightarrow> string \<Rightarrow> string list" where
  "remover_diacono lista n = filter (\<lambda>d. d \<noteq> n) lista"

definition obter_proximo_chave_circular :: "estado \<Rightarrow> (error + string) \<times> estado" where
  "obter_proximo_chave_circular s =
     (let (gen, g) = s;
          gen1 = (if length (chaves_usadas gen) \<ge> length (lista_diaconos gen)
                  then gen\<lparr>chaves_usadas := []\<rparr> else gen);
          diaconos_disponiveis =
            filter (\<lambda>d. d \<notin> set (chaves_usadas gen1)) (lista_diaconos gen1);
          gen2 = (if diaconos_disponiveis = [] then gen1\<lparr>chaves_usadas := []\<rparr> else gen1);
          disponiveis2 = (if diaconos_disponiveis = [] then lista_diaconos gen1
                          else diaconos_disponiveis)
      in case random_choice disponiveis2 g of
           (Inl e, g') \<Rightarrow> (Inl e, (gen2, g'))
         | (Inr escolhido, g') \<Rightarrow>
             (Inr escolhido, (gen2\<lparr>chaves_usadas := chaves_usadas gen2 @ [escolhido]\<rparr>, g')))"

section \<open>Date enumeration\<close>

text \<open>
  \<open>datas_por_dia\<close> is a dictionary with the three keys inserted in the order domingo,
  quarta, sabado; \<open>.items()\<close> iterates in that order, so it is an association list.
  \<open>datas_por_dia[k].append(d)\<close> extends the list stored under \<open>k\<close>.
\<close>

type_synonym datas_dict = "(string \<times> date list) list"

definition dict_append :: "string \<Rightarrow> date \<Rightarrow> datas_dict \<Rightarrow> datas_dict" where
  "dict_append k d m = map (\<lambda>(k', ds). if k' = k then (k', ds @ [d]) else (k', ds)) m"

function calcular_loop :: "date \<Rightarrow> date \<Rightarrow> datas_dict \<Rightarrow> error + datas_dict" where
  "calcular_loop data_atual data_fim datas_por_dia =
     (if data_atual \<le> data_fim then
        (let dia_semana = weekday data_atual;
             datas' =
               (if Some dia_semana = MAPA_DIAS_SEMANA ''domingo''
                  then dict_append ''domingo'' data_atual datas_por_dia
                else if Some dia_semana = MAPA_DIAS_SEMANA ''quarta''
                  then dict_append ''quarta'' data_atual datas_por_dia
                else if Some dia_semana = MAPA_DIAS_SEMANA ''sabado''
                  then dict_append ''sabado'' data_atual datas_por_dia
                else datas_por_dia)
         in case date_add data_atual 1 of
              Inl e \<Rightarrow> Inl e
            | Inr proxima \<Rightarrow> calcular_loop proxima data_fim datas')
      else Inr datas_por_dia)"
  by pat_completeness auto
termination
  by (relation "measure (\<lambda>(data_atual, data_fim, _). nat (data_fim + 1 - data_atual))")
     (auto simp: date_add_def Let_def split: if_splits)

text \<open>The loop's equation unfolds without end: it is applied one step at a time.\<close>

declare calcular_loop.simps [simp del]

text \<open>
  The method reads the year and the class constant only; it assigns no field of the
  instance and draws nothing, so it returns the state it was given.
\<close>

definition calcular_datas_ano :: "int \<Rightarrow> estado \<Rightarrow> (error + datas_dict) \<times> estado" where
  "calcular_datas_ano ano s =
     (case py_date ano 1 1 of
        Inl e \<Rightarrow> (Inl e, s)
      | Inr data_atual \<Rightarrow>
          (case py_date ano 12 31 of
             Inl e \<Rightarrow> (Inl e, s)
           | Inr data_fim \<Rightarrow>
               (calcular_loop data_atual data_fim
                  [(''domingo'', []), (''quarta'', []), (''sabado'', [])], s)))"

section \<open>Annual generation\<close>

definition encontrar_sabado_semana :: "date \<Rightarrow> error + date option" where
  "encontrar_sabado_semana data_evento =
     (let dia_semana = weekday data_evento
      in if dia_semana = 6 then
           (case date_add data_evento (- 1) of Inl e \<Rightarrow> Inl e | Inr sabado \<Rightarrow> Inr (Some sabado))
         else if dia_semana = 2 then
           (case date_add data_evento (- 4) of Inl e \<Rightarrow> Inl e | Inr sabado \<Rightarrow> Inr (Some sabado))
         else Inr None)"

definition adicionar_escala_dia_anual :: "string \<Rightarrow> date \<Rightarrow> estado \<Rightarrow> (error + unit) \<times> estado" where
  "adicionar_escala_dia_anual dia_nome data_evento s =
     (case encontrar_sabado_semana data_evento of
        Inl e \<Rightarrow> (Inl e, s)
      | Inr sabado_semana \<Rightarrow>
          (case (case (case sabado_semana of
                         None \<Rightarrow> None
                       | Some sabado \<Rightarrow> chave_semanal (fst s) sabado) of
                   Some diacono_chave \<Rightarrow> (Inr diacono_chave, s)
                 | None \<Rightarrow> obter_proximo_chave_circular s) of
             (Inl e, s') \<Rightarrow> (Inl e, s')
           | (Inr diacono_chave, (gen, g)) \<Rightarrow>
               (Inr (),
                (gen\<lparr>escala_gerada := escala_gerada gen @
                    [\<lparr>nome = diacono_chave, funcao = ''chave'', dia = dia_nome,
                      data = Some data_evento\<rparr>]\<rparr>, g))))"

text \<open>The loop \<open>for _ in range(2)\<close> of the Saturday: the counter is the number of rounds left.\<close>

fun sortear_ofertas_anual :: "nat \<Rightarrow> date \<Rightarrow> estado \<Rightarrow> (error + unit) \<times> estado" where
  "sortear_ofertas_anual 0 data_evento s = (Inr (), s)"
| "sortear_ofertas_anual (Suc n) data_evento (gen, g) =
     (case sortear_diacono (lista_diaconos gen) g of
        (Inl e, g') \<Rightarrow> (Inl e, (gen, g'))
      | (Inr diacono_oferta, g') \<Rightarrow>
          sortear_ofertas_anual n data_evento
            (gen\<lparr>escala_gerada := escala_gerada gen @
                [\<lparr>nome = diacono_oferta, funcao = ''oferta'', dia = ''sabado'',
                  data = Some data_evento\<rparr>]\<rparr>, g'))"

definition adicionar_escala_sabado_anual :: "date \<Rightarrow> estado \<Rightarrow> (error + unit) \<times> estado" where
  "adicionar_escala_sabado_anual data_evento s =
     (case obter_proximo_chave_circular s of
        (Inl e, s') \<Rightarrow> (Inl e, s')
      | (Inr diacono_chave, (gen, g)) \<Rightarrow>
          sortear_ofertas_anual 2 data_evento
            (gen\<lparr>chave_semanal := (chave_semanal gen)(data_evento \<mapsto> diacono_chave),
                 escala_gerada := escala_gerada gen @
                   [\<lparr>nome = diacono_chave, funcao = ''chave'', dia = ''sabado'',
                     data = Some data_evento\<rparr>]\<rparr>, g))"

text \<open>The loop over \<open>todas_datas\<close>; an exception ends it with the state reached so far.\<close>

fun processar_datas :: "(date \<times> string) list \<Rightarrow> estado \<Rightarrow> (error + unit) \<times> estado" where
  "processar_datas [] s = (Inr (), s)"
| "processar_datas ((data_evento, dia_semana) # resto) s =
     (case (if dia_semana = ''sabado'' then adicionar_escala_sabado_anual data_evento s
            else adicionar_escala_dia_anual dia_semana data_evento s) of
        (Inl e, s') \<Rightarrow> (Inl e, s')
      | (Inr _, s') \<Rightarrow> processar_datas resto s')"

definition todas_datas_de :: "datas_dict \<Rightarrow> (date \<times> string) list" where
  "todas_datas_de datas_por_dia =
     sort_key fst (concat (map (\<lambda>(dia_nome, datas). map (\<lambda>d. (d, dia_nome)) datas) datas_por_dia))"

definition gerar_escala_anual :: "int \<Rightarrow> estado \<Rightarrow> (error + DiaconoEscala list) \<times> estado" where
  "gerar_escala_anual ano s =
     (let (gen, g) = s;
          s0 = (gen\<lparr>escala_gerada := [], chaves_usadas := [], chave_semanal := Map.empty\<rparr>, g)
      in case calcular_datas_ano ano s0 of
           (Inl e, s1) \<Rightarrow> (Inl e, s1)
         | (Inr datas_por_dia, s1) \<Rightarrow>
             (case processar_datas (todas_datas_de datas_por_dia) s1 of
                (Inl e, s2) \<Rightarrow> (Inl e, s2)
              | (Inr _, s2) \<Rightarrow> (Inr (escala_gerada (fst s2)), s2)))"

section \<open>Legacy weekly generation\<close>

text \<open>
  The legacy helpers receive the list \<open>diaconos_disponiveis\<close> by reference, rebind their
  parameter to new lists and mutate one in place, so the list objects of one call to
  \<open>gerar_escala_semanal\<close> live in a store: a variable holds an address,
  \<open>_remover_diacono\<close> and \<open>.copy()\<close> allocate a new list, and \<open>.remove(x)\<close> rewrites
  the list at the address its variable holds (ValueError when \<open>x\<close> is absent).
\<close>

record heap =
  cells :: "nat \<Rightarrow> string list"
  livre :: nat

definition nova_lista :: "string list \<Rightarrow> heap \<Rightarrow> nat \<times> heap" where
  "nova_lista xs h = (livre h, h\<lparr>cells := (cells h)(livre h := xs), livre := Suc (livre h)\<rparr>)"

definition list_remove :: "string \<Rightarrow> string list \<Rightarrow> error + string list" where
  "list_remove x xs = (if x \<in> set xs then Inr (remove1 x xs) else Inl ValueError_not_in_list)"

type_synonym estado_semanal = "gerador \<times> heap \<times> random_state"

definition adicionar_escala_dia :: "string \<Rightarrow> nat \<Rightarrow> bool \<Rightarrow> estado_semanal
    \<Rightarrow> (error + unit) \<times> estado_semanal" where
  "adicionar_escala_dia dia_nome diaconos_disponiveis evitar_repeticao s =
     (let (gen, h, g) = s
      in case sortear_diacono (cells h diaconos_disponiveis) g of
           (Inl e, g1) \<Rightarrow> (Inl e, (gen, h, g1))
         | (Inr diacono_chave, g1) \<Rightarrow>
             (let gen1 = gen\<lparr>escala_gerada := escala_gerada gen @
                    [\<lparr>nome = diacono_chave, funcao = ''chave'', dia = dia_nome, data = None\<rparr>]\<rparr>;
                  (disponiveis1, h1) =
                    (if evitar_repeticao
                     then nova_lista (remover_diacono (cells h diaconos_disponiveis) diacono_chave) h
                     else (diaconos_disponiveis, h))
              in case sortear_diacono (cells h1 disponiveis1) g1 of
                   (Inl e, g2) \<Rightarrow> (Inl e, (gen1, h1, g2))
                 | (Inr diacono_oferta, g2) \<Rightarrow>
                     (let gen2 = gen1\<lparr>escala_gerada := escala_gerada gen1 @
                            [\<lparr>nome = diacono_oferta, funcao = ''oferta'', dia = dia_nome,
                              data = None\<rparr>]\<rparr>
                      in if evitar_repeticao then
                           (case list_remove diacono_oferta (cells h1 disponiveis1) of
                              Inl e \<Rightarrow> (Inl e, (gen2, h1, g2))
                            | Inr xs \<Rightarrow>
                                (Inr (), (gen2, h1\<lparr>cells := (cells h1)(disponiveis1 := xs)\<rparr>, g2)))
                         else (Inr (), (gen2, h1, g2)))))"

fun sortear_ofertas_sabado :: "nat \<Rightarrow> nat \<Rightarrow> bool \<Rightarrow> estado_semanal
    \<Rightarrow> (error + unit) \<times> estado_semanal" where
  "sortear_ofertas_sabado 0 diaconos_disponiveis evitar_repeticao s = (Inr (), s)"
| "sortear_ofertas_sabado (Suc n) diaconos_disponiveis evitar_repeticao (gen, h, g) =
     (case sortear_diacono (cells h diaconos_disponiveis) g of
        (Inl e, g1) \<Rightarrow> (Inl e, (gen, h, g1))
      | (Inr diacono_oferta, g1) \<Rightarrow>
          (let gen1 = gen\<lparr>escala_gerada := escala_gerada gen @
                 [\<lparr>nome = diacono_oferta, funcao = ''oferta'', dia = ''sabado'', data = None\<rparr>]\<rparr>;
               (disponiveis1, h1) =
                 (if evitar_repeticao
                  then nova_lista (remover_diacono (cells h diaconos_disponiveis) diacono_oferta) h
                  else (diaconos_disponiveis, h))
           in sortear_ofertas_sabado n disponiveis1 evitar_repeticao (gen1, h1, g1)))"

definition adicionar_escala_sabado :: "nat \<Rightarrow> bool \<Rightarrow> estado_semanal
    \<Rightarrow> (error + unit) \<times> estado_semanal" where
  "adicionar_escala_sabado diaconos_disponiveis evitar_repeticao s =
     (let (gen, h, g) = s
      in case sortear_diacono (cells h diaconos_disponiveis) g of
           (Inl e, g1) \<Rightarrow> (Inl e, (gen, h, g1))
         | (Inr diacono_chave, g1) \<Rightarrow>
             (let gen1 = gen\<lparr>escala_gerada := escala_gerada gen @
                    [\<lparr>nome = diacono_chave, funcao = ''chave'', dia = ''sabado'', data = None\<rparr>]\<rparr>;
                  (disponiveis1, h1) =
                    (if evitar_repeticao
                     then nova_lista (remover_diacono (cells h diaconos_disponiveis) diacono_chave) h
                     else (diaconos_disponiveis, h))
              in sortear_ofertas_sabado 2 disponiveis1 evitar_repeticao (gen1, h1, g1)))"

definition gerar_escala_semanal :: "bool \<Rightarrow> estado \<Rightarrow> (error + DiaconoEscala list) \<times> estado" where
  "gerar_escala_semanal evitar_repeticao s =
     (let (gen, g) = s;
          gen0 = gen\<lparr>escala_gerada := [], chaves_usadas := []\<rparr>;
          (diaconos_disponiveis, h0) =
            nova_lista (lista_diaconos gen0) \<lparr>cells = (\<lambda>_. []), livre = 0\<rparr>
      in case adicionar_escala_dia ''domingo'' diaconos_disponiveis evitar_repeticao (gen0, h0, g) of
           (Inl e, (gen1, h1, g1)) \<Rightarrow> (Inl e, (gen1, g1))
         | (Inr _, s1) \<Rightarrow>
             (case adicionar_escala_dia ''quarta'' diaconos_disponiveis evitar_repeticao s1 of
                (Inl e, (gen2, h2, g2)) \<Rightarrow> (Inl e, (gen2, g2))
              | (Inr _, s2) \<Rightarrow>
                  (case adicionar_escala_sabado diaconos_disponiveis evitar_repeticao s2 of
                     (Inl e, (gen3, h3, g3)) \<Rightarrow> (Inl e, (gen3, g3))
                   | (Inr _, (gen3, h3, g3)) \<Rightarrow> (Inr (escala_gerada gen3), (gen3, g3)))))"

section \<open>Grouping queries\<close>

text \<open>
  Both queries run the same loop, \<open>grupos[chave(d)].append(d)\<close> over the schedule, on a
  dictionary that starts with a fixed set of keys; reading a key that is not there raises
  KeyError. \<open>agrupar\<close> is that loop, with the field read as a parameter.
\<close>

fun agrupar :: "(DiaconoEscala \<Rightarrow> string) \<Rightarrow> DiaconoEscala list
    \<Rightarrow> (string \<rightharpoonup> DiaconoEscala list) \<Rightarrow> error + (string \<rightharpoonup> DiaconoEscala list)" where
  "agrupar campo [] grupos = Inr grupos"
| "agrupar campo (diacono # resto) grupos =
     (case grupos (campo diacono) of
        None \<Rightarrow> Inl (KeyError (campo diacono))
      | Some ds \<Rightarrow> agrupar campo resto (grupos(campo diacono \<mapsto> ds @ [diacono])))"

definition obter_escala_por_dia :: "gerador \<Rightarrow> error + (string \<rightharpoonup> DiaconoEscala list)" where
  "obter_escala_por_dia gen =
     agrupar dia (escala_gerada gen) (map_of (map (\<lambda>d. (d, [])) DIAS_ESCALA))"

definition obter_escala_por_funcao :: "gerador \<Rightarrow> error + (string \<rightharpoonup> DiaconoEscala list)" where
  "obter_escala_por_funcao gen =
     agrupar funcao (escala_gerada gen) [''chave'' \<mapsto> [], ''oferta'' \<mapsto> []]"

section \<open>Sequences of rotation picks\<close>

text \<open>
  A run of consecutive calls to \<open>_obter_proximo_chave_circular\<close> on one generator:
  \<open>sortear_chaves m\<close> makes \<open>m\<close> calls and returns the names picked, in order. A
  generator is aligned with the rotation when its next pick starts a pass: nothing is
  marked as used, or everything is and the next call clears the marks.
\<close>

fun sortear_chaves :: "nat \<Rightarrow> estado \<Rightarrow> (error + string list) \<times> estado" where
  "sortear_chaves 0 s = (Inr [], s)"
| "sortear_chaves (Suc n) s =
     (case obter_proximo_chave_circular s of
        (Inl e, s') \<Rightarrow> (Inl e, s')
      | (Inr escolhido, s') \<Rightarrow>
          (case sortear_chaves n s' of
             (Inl e, s'') \<Rightarrow> (Inl e, s'')
           | (Inr resto, s'') \<Rightarrow> (Inr (escolhido # resto), s'')))"

definition alinhado :: "gerador \<Rightarrow> bool" where
  "alinhado gen = (chaves_usadas gen = [] \<or> length (lista_diaconos gen) \<le> length (chaves_usadas gen))"

section \<open>Well-formed schedules\<close>

text \<open>
  A record is well formed when its day is one of the three keys of \<open>DIAS_ESCALA\<close> and
  its role is one of the two keys of the dictionary \<open>obter_escala_por_funcao\<close> starts
  from: the keys the grouping queries can read.
\<close>

definition registro_valido :: "DiaconoEscala \<Rightarrow> bool" where
  "registro_valido d = (dia d \<in> set DIAS_ESCALA \<and> funcao d \<in> {''chave'', ''oferta''})"

section \<open>Shapes of an annual schedule\<close>

text \<open>
  What the statements about a year's schedule are written with: the role, day and date of
  an assignment (\<open>forma\<close>), what one date adds to the schedule (\<open>bloco\<close>), the
  sorted list the loop of \<open>gerar_escala_anual\<close> runs over (\<open>datas_do_ano\<close>), and
  the roles and days assigned at a date, in schedule order (\<open>papeis_na_data\<close>).
\<close>

definition forma :: "DiaconoEscala \<Rightarrow> string \<times> string \<times> date option" where
  "forma a = (funcao a, dia a, data a)"

definition bloco :: "date \<times> string \<Rightarrow> (string \<times> string \<times> date option) list" where
  "bloco p =
     (case p of (d, k) \<Rightarrow>
        if k = ''sabado''
        then [(''chave'', ''sabado'', Some d), (''oferta'', ''sabado'', Some d),
              (''oferta'', ''sabado'', Some d)]
        else [(''chave'', k, Some d)])"

definition datas_do_ano :: "int \<Rightarrow> (date \<times> string) list" where
  "datas_do_ano ano =
     todas_datas_de
       [(''domingo'', filter (\<lambda>d. weekday d = 6) [primeiro_dia ano..ultimo_dia ano]),
        (''quarta'', filter (\<lambda>d. weekday d = 2) [primeiro_dia ano..ultimo_dia ano]),
        (''sabado'', filter (\<lambda>d. weekday d = 5) [primeiro_dia ano..ultimo_dia ano])]"

definition papeis_na_data :: "DiaconoEscala list \<Rightarrow> date \<Rightarrow> (string \<times> string) list" where
  "papeis_na_data escala d = map (\<lambda>a. (funcao a, dia a)) (filter (\<lambda>a. data a = Some d) escala)"

section \<open>The weekly link of an annual schedule\<close>

text \<open>
  The names assigned with role chave at a date, in schedule order
  (\<open>chaves_na_data\<close>), and what the loop of \<open>gerar_escala_anual\<close> keeps true
  of the instance once it has processed the dates \<open>feitas\<close>
  (\<open>invariante_anual\<close>): every assignment carries a processed date;
  \<open>_chave_semanal\<close> holds exactly the processed Saturdays, each with the one name
  assigned chave on it; and a processed Sunday or Wednesday whose Saturday was processed
  has that Saturday's chave.
\<close>

definition chaves_na_data :: "DiaconoEscala list \<Rightarrow> date \<Rightarrow> string list" where
  "chaves_na_data escala d =
     map nome (filter (\<lambda>a. data a = Some d \<and> funcao a = ''chave'') escala)"

definition invariante_anual :: "(date \<times> string) list \<Rightarrow> gerador \<Rightarrow> bool" where
  "invariante_anual feitas gen =
     ((\<forall>a \<in> set (escala_gerada gen). \<exists>p \<in> set feitas. data a = Some (fst p))
    \<and> (\<forall>s n. chave_semanal gen s = Some n \<longrightarrow>
          (s, ''sabado'') \<in> set feitas \<and> chaves_na_data (escala_gerada gen) s = [n])
    \<and> (\<forall>s. (s, ''sabado'') \<in> set feitas \<longrightarrow> chave_semanal gen s \<noteq> None)
    \<and> (\<forall>p \<in> set feitas. snd p \<noteq> ''sabado'' \<longrightarrow>
          (\<forall>s. encontrar_sabado_semana (fst p) = Inr (Some s) \<longrightarrow> (s, ''sabado'') \<in> set feitas \<longrightarrow>
             chaves_na_data (escala_gerada gen) (fst p) = chaves_na_data (escala_gerada gen) s)))"

section \<open>A run of the program\<close>

text \<open>
  One run, as \<open>main.py\<close> makes it: \<open>GeradorEscalaDiaconos(lista, seed)\<close>, then
  \<open>gerar_escala_anual(ano)\<close> on the new instance. The run returns the schedule or the
  exception raised by the constructor or by the generation; \<open>g\<close> is the state of the
  process-wide random source when the run starts.
\<close>

definition executar_anual :: "(int \<Rightarrow> random_state) \<Rightarrow> string list \<Rightarrow> int option \<Rightarrow> int
    \<Rightarrow> random_state \<Rightarrow> error + DiaconoEscala list" where
  "executar_anual seeder lista seed ano g =
     (case init seeder lista seed g of
        Inl e \<Rightarrow> Inl e
      | Inr s \<Rightarrow> fst (gerar_escala_anual ano s))"

section \<open>Construction: the empty roster is refused\<close>

text \<open>
  C8. Constructing a generator with an empty roster fails with the constructor's ValueError
  (the spec's ConfigurationError): no instance exists, so no schedule can be produced from
  it. For every non-empty roster construction succeeds, with the roster copied and an empty
  schedule, rotation state and weekly-link map.
\<close>

theorem init_lista_vazia:
  "init seeder [] seed g = Inl ValueError_lista_vazia \<and>
   (lista \<noteq> [] \<longrightarrow>
      (\<exists>g'. init seeder lista seed g =
         Inr (\<lparr>lista_diaconos = lista, escala_gerada = [], chaves_usadas = [],
               chave_semanal = Map.empty\<rparr>, g')))"
  by (simp add: init_def)

theorem init_lista_vazia_witness:
  "init (\<lambda>_. \<lparr>draws = (\<lambda>_. 0), cursor = 0\<rparr>) [] (Some 42) \<lparr>draws = (\<lambda>_. 0), cursor = 0\<rparr>
     = Inl ValueError_lista_vazia \<and>
   [''Joao'', ''Maria''] \<noteq> [] \<and>
   (\<exists>g'. init (\<lambda>_. \<lparr>draws = (\<lambda>_. 0), cursor = 0\<rparr>) [''Joao'', ''Maria''] (Some 42)
            \<lparr>draws = (\<lambda>_. 0), cursor = 0\<rparr> =
      Inr (\<lparr>lista_diaconos = [''Joao'', ''Maria''], escala_gerada = [], chaves_usadas = [],
            chave_semanal = Map.empty\<rparr>, g'))"
  using init_lista_vazia [of "\<lambda>_. \<lparr>draws = (\<lambda>_. 0), cursor = 0\<rparr>" "Some 42"
      "\<lparr>draws = (\<lambda>_. 0), cursor = 0\<rparr>" "[''Joao'', ''Maria'']"]
  by simp

section \<open>The rotation pick\<close>

lemma random_choice_ok:
  "seq \<noteq> [] \<Longrightarrow> \<exists>x. random_choice seq g = (Inr x, g\<lparr>cursor := Suc (cursor g)\<rparr>) \<and> x \<in> set seq"
  by (simp add: random_choice_def)

lemma pick_char:
  assumes "lista_diaconos gen \<noteq> []"
  shows "\<exists>x. obter_proximo_chave_circular (gen, g) =
           (Inr x, (gen\<lparr>chaves_usadas :=
                       (if length (lista_diaconos gen) \<le> length (chaves_usadas gen)
                           \<or> set (lista_diaconos gen) \<subseteq> set (chaves_usadas gen)
                        then [x] else chaves_usadas gen @ [x])\<rparr>,
                    g\<lparr>cursor := Suc (cursor g)\<rparr>))
         \<and> x \<in> set (lista_diaconos gen)
         \<and> (\<not> (length (lista_diaconos gen) \<le> length (chaves_usadas gen)
                \<or> set (lista_diaconos gen) \<subseteq> set (chaves_usadas gen))
              \<longrightarrow> x \<notin> set (chaves_usadas gen))"
proof (cases "length (lista_diaconos gen) \<le> length (chaves_usadas gen)")
  case True
  from random_choice_ok[OF assms, of g] obtain x where
    "random_choice (lista_diaconos gen) g = (Inr x, g\<lparr>cursor := Suc (cursor g)\<rparr>)" "x \<in> set (lista_diaconos gen)"
    by blast
  with True assms show ?thesis
    by (simp add: obter_proximo_chave_circular_def Let_def)
next
  case False
  let ?disp = "filter (\<lambda>d. d \<notin> set (chaves_usadas gen)) (lista_diaconos gen)"
  show ?thesis
  proof (cases "?disp = []")
    case True
    then have sub: "set (lista_diaconos gen) \<subseteq> set (chaves_usadas gen)"
      by (auto simp: filter_empty_conv)
    from random_choice_ok[OF assms, of g] obtain x where
      "random_choice (lista_diaconos gen) g = (Inr x, g\<lparr>cursor := Suc (cursor g)\<rparr>)" "x \<in> set (lista_diaconos gen)"
      by blast
    with False True sub show ?thesis
      by (simp add: obter_proximo_chave_circular_def Let_def)
  next
    case ne: False
    then have nsub: "\<not> set (lista_diaconos gen) \<subseteq> set (chaves_usadas gen)"
      by (auto simp: filter_empty_conv)
    from random_choice_ok[OF ne, of g] obtain x where
      "random_choice ?disp g = (Inr x, g\<lparr>cursor := Suc (cursor g)\<rparr>)" "x \<in> set ?disp"
      by blast
    with False ne nsub show ?thesis
      by (simp add: obter_proximo_chave_circular_def Let_def)
  qed
qed

text \<open>
  C7. For every non-empty roster, duplicates included, and every prior rotation state, the
  rotation pick raises nothing: it returns a member of the roster. The marks are cleared
  when as many names are marked as the roster holds, and also when every roster member is
  marked (the fallback, which then draws from the whole roster); otherwise the pick is
  added to the marks.
\<close>

theorem obter_proximo_chave_circular_never_raises:
  "lista_diaconos gen \<noteq> [] \<Longrightarrow>
   \<exists>x g'. obter_proximo_chave_circular (gen, g) =
           (Inr x, (gen\<lparr>chaves_usadas :=
                       (if length (lista_diaconos gen) \<le> length (chaves_usadas gen)
                           \<or> set (lista_diaconos gen) \<subseteq> set (chaves_usadas gen)
                        then [x] else chaves_usadas gen @ [x])\<rparr>, g'))
         \<and> x \<in> set (lista_diaconos gen)"
  using pick_char[of gen g] by blast

theorem obter_proximo_chave_circular_never_raises_witness:
  "[''A'', ''A''] \<noteq> [] \<and>
   (\<exists>x g'. obter_proximo_chave_circular
       (\<lparr>lista_diaconos = [''A'', ''A''], escala_gerada = [], chaves_usadas = [''A''],
          chave_semanal = Map.empty\<rparr>, \<lparr>draws = (\<lambda>_. 0), cursor = 0\<rparr>) =
       (Inr x, (\<lparr>lista_diaconos = [''A'', ''A''], escala_gerada = [], chaves_usadas = [x],
          chave_semanal = Map.empty\<rparr>, g')) \<and> x \<in> set [''A'', ''A''])"
  using obter_proximo_chave_circular_never_raises [of "\<lparr>lista_diaconos = [''A'', ''A''], escala_gerada = [], chaves_usadas = [''A''],
          chave_semanal = Map.empty\<rparr>" "\<lparr>draws = (\<lambda>_. 0), cursor = 0\<rparr>"]
  by simp

lemma sortear_chaves_add:
  "sortear_chaves (a + b) s =
     (case sortear_chaves a s of
        (Inl e, s') \<Rightarrow> (Inl e, s')
      | (Inr xs, s') \<Rightarrow>
          (case sortear_chaves b s' of
             (Inl e, s'') \<Rightarrow> (Inl e, s'')
           | (Inr ys, s'') \<Rightarrow> (Inr (xs @ ys), s'')))"
  by (induction a arbitrary: s) (auto split: prod.splits sum.splits)

lemma sortear_chaves_ok:
  "lista_diaconos gen \<noteq> [] \<Longrightarrow>
   \<exists>ps gen' g'. sortear_chaves m (gen, g) = (Inr ps, (gen', g')) \<and> length ps = m
      \<and> lista_diaconos gen' = lista_diaconos gen"
proof (induction m arbitrary: gen g)
  case 0
  then show ?case by simp
next
  case (Suc m)
  from pick_char[OF Suc.prems, of g] obtain x gen1 g1 where
    p: "obter_proximo_chave_circular (gen, g) = (Inr x, (gen1, g1))"
       "lista_diaconos gen1 = lista_diaconos gen"
    by fastforce
  from Suc.IH[of gen1 g1] Suc.prems p(2) obtain ps gen' g' where
    "sortear_chaves m (gen1, g1) = (Inr ps, (gen', g'))" "length ps = m"
    "lista_diaconos gen' = lista_diaconos gen1" by auto
  with p show ?case by simp
qed

lemma passo_parcial:
  "distinct (lista_diaconos gen) \<Longrightarrow> distinct (chaves_usadas gen) \<Longrightarrow>
   set (chaves_usadas gen) \<subseteq> set (lista_diaconos gen) \<Longrightarrow>
   length (chaves_usadas gen) + j \<le> length (lista_diaconos gen) \<Longrightarrow>
   \<exists>ps g'. sortear_chaves j (gen, g) =
        (Inr ps, (gen\<lparr>chaves_usadas := chaves_usadas gen @ ps\<rparr>, g'))
      \<and> length ps = j \<and> distinct (chaves_usadas gen @ ps) \<and> set ps \<subseteq> set (lista_diaconos gen)"
proof (induction j arbitrary: gen g)
  case 0
  then show ?case by simp
next
  case (Suc j)
  let ?n = "length (lista_diaconos gen)"
  from Suc.prems have lt: "length (chaves_usadas gen) < ?n" by simp
  then have ne: "lista_diaconos gen \<noteq> []" by auto
  have nsub: "\<not> set (lista_diaconos gen) \<subseteq> set (chaves_usadas gen)"
  proof
    assume "set (lista_diaconos gen) \<subseteq> set (chaves_usadas gen)"
    then have "card (set (lista_diaconos gen)) \<le> card (set (chaves_usadas gen))"
      by (simp add: card_mono)
    with Suc.prems(1,2) lt show False by (simp add: distinct_card)
  qed
  from pick_char[OF ne, of g] lt nsub obtain x where
    p: "obter_proximo_chave_circular (gen, g) =
          (Inr x, (gen\<lparr>chaves_usadas := chaves_usadas gen @ [x]\<rparr>, g\<lparr>cursor := Suc (cursor g)\<rparr>))"
       "x \<in> set (lista_diaconos gen)" "x \<notin> set (chaves_usadas gen)"
    by auto
  let ?gen1 = "gen\<lparr>chaves_usadas := chaves_usadas gen @ [x]\<rparr>"
  have "\<exists>ps g'. sortear_chaves j (?gen1, g\<lparr>cursor := Suc (cursor g)\<rparr>) =
        (Inr ps, (?gen1\<lparr>chaves_usadas := chaves_usadas ?gen1 @ ps\<rparr>, g'))
      \<and> length ps = j \<and> distinct (chaves_usadas ?gen1 @ ps) \<and> set ps \<subseteq> set (lista_diaconos ?gen1)"
    using Suc.prems p(2,3) by (intro Suc.IH) auto
  then obtain ps g' where
    r: "sortear_chaves j (?gen1, g\<lparr>cursor := Suc (cursor g)\<rparr>) =
        (Inr ps, (?gen1\<lparr>chaves_usadas := chaves_usadas ?gen1 @ ps\<rparr>, g'))"
       "length ps = j" "distinct (chaves_usadas ?gen1 @ ps)" "set ps \<subseteq> set (lista_diaconos ?gen1)"
    by blast
  show ?case
    apply (rule exI[of _ "x # ps"], rule exI[of _ g'])
    using p r by simp
qed

lemma pick_reset:
  "obter_proximo_chave_circular (gen, g) = obter_proximo_chave_circular (gen\<lparr>chaves_usadas := []\<rparr>, g)"
  if "lista_diaconos gen \<noteq> []" "alinhado gen"
proof (cases "chaves_usadas gen = []")
  case True
  then have "gen\<lparr>chaves_usadas := []\<rparr> = gen" by (cases gen) simp
  then show ?thesis by simp
next
  case False
  with that show ?thesis
    by (auto simp: obter_proximo_chave_circular_def alinhado_def Let_def)
qed

lemma passo_completo:
  assumes "distinct (lista_diaconos gen)" "lista_diaconos gen \<noteq> []" "alinhado gen"
  shows "\<exists>ps g'. sortear_chaves (length (lista_diaconos gen)) (gen, g) =
        (Inr ps, (gen\<lparr>chaves_usadas := ps\<rparr>, g'))
      \<and> mset ps = mset (lista_diaconos gen)"
proof -
  let ?n = "length (lista_diaconos gen)"
  let ?gen0 = "gen\<lparr>chaves_usadas := []\<rparr>"
  from assms(2) obtain n' where n: "?n = Suc n'" by (cases "lista_diaconos gen") auto
  have eq: "sortear_chaves ?n (gen, g) = sortear_chaves ?n (?gen0, g)"
    unfolding n using pick_reset[OF assms(2,3), of g] by simp
  have "\<exists>ps g'. sortear_chaves ?n (?gen0, g) =
        (Inr ps, (?gen0\<lparr>chaves_usadas := chaves_usadas ?gen0 @ ps\<rparr>, g'))
      \<and> length ps = ?n \<and> distinct (chaves_usadas ?gen0 @ ps) \<and> set ps \<subseteq> set (lista_diaconos ?gen0)"
    using assms(1) passo_parcial[of ?gen0 ?n g] by simp
  then obtain ps g' where
    r: "sortear_chaves ?n (?gen0, g) = (Inr ps, (gen\<lparr>chaves_usadas := ps\<rparr>, g'))"
       "length ps = ?n" "distinct ps" "set ps \<subseteq> set (lista_diaconos gen)"
    by auto
  have "card (set ps) = card (set (lista_diaconos gen))"
    using r(2,3) assms(1) by (simp add: distinct_card)
  with r(4) have "set ps = set (lista_diaconos gen)"
    by (simp add: card_subset_eq)
  with r(3) assms(1) have "mset ps = mset (lista_diaconos gen)"
    by (simp add: set_eq_iff_mset_eq_distinct)
  with eq r(1) show ?thesis by auto
qed

lemma passos_alinhados:
  assumes "distinct (lista_diaconos gen)" "lista_diaconos gen \<noteq> []" "alinhado gen"
  shows "\<exists>ps gen' g'. sortear_chaves (k * length (lista_diaconos gen)) (gen, g) =
        (Inr ps, (gen', g'))
      \<and> length ps = k * length (lista_diaconos gen)
      \<and> lista_diaconos gen' = lista_diaconos gen \<and> alinhado gen'"
proof (induction k)
  case 0
  then show ?case using assms(3) by simp
next
  case (Suc k)
  let ?n = "length (lista_diaconos gen)"
  from Suc obtain ps gen' g' where
    a: "sortear_chaves (k * ?n) (gen, g) = (Inr ps, (gen', g'))" "length ps = k * ?n"
       "lista_diaconos gen' = lista_diaconos gen" "alinhado gen'" by blast
  from passo_completo[of gen' g'] a(3,4) assms obtain qs g'' where
    b: "sortear_chaves ?n (gen', g') = (Inr qs, (gen'\<lparr>chaves_usadas := qs\<rparr>, g''))"
       "mset qs = mset (lista_diaconos gen)" by auto
  from b(2) have lq: "length qs = ?n" by (metis size_mset)
  have "sortear_chaves (Suc k * ?n) (gen, g) = sortear_chaves (k * ?n + ?n) (gen, g)"
    by (simp add: add.commute)
  also have "\<dots> = (Inr (ps @ qs), (gen'\<lparr>chaves_usadas := qs\<rparr>, g''))"
    using a(1) b(1) by (simp add: sortear_chaves_add)
  finally show ?case using a(2,3) lq by (simp add: alinhado_def)
qed

text \<open>
  C4, as amended. For every non-empty roster of distinct names and a generator whose
  rotation state is empty, every run of picks succeeds, and each window of picks aligned
  with the passes (picks \<open>k * n + 1\<close> to \<open>k * n + n\<close> for a roster of \<open>n\<close> names)
  contains every roster member exactly once.
\<close>

theorem rotacao_janelas_alinhadas:
  assumes "distinct (lista_diaconos gen)" "lista_diaconos gen \<noteq> []" "chaves_usadas gen = []"
    and "k * length (lista_diaconos gen) + length (lista_diaconos gen) \<le> m"
  shows "\<exists>ps s'. sortear_chaves m (gen, g) = (Inr ps, s') \<and> length ps = m \<and>
     mset (take (length (lista_diaconos gen)) (drop (k * length (lista_diaconos gen)) ps))
       = mset (lista_diaconos gen)"
proof -
  let ?n = "length (lista_diaconos gen)"
  have al: "alinhado gen" using assms(3) by (simp add: alinhado_def)
  from passos_alinhados[OF assms(1,2) al, of k g] obtain ps gen' g' where
    a: "sortear_chaves (k * ?n) (gen, g) = (Inr ps, (gen', g'))" "length ps = k * ?n"
       "lista_diaconos gen' = lista_diaconos gen" "alinhado gen'" by blast
  from passo_completo[of gen' g'] a(3,4) assms obtain qs g'' where
    b: "sortear_chaves ?n (gen', g') = (Inr qs, (gen'\<lparr>chaves_usadas := qs\<rparr>, g''))"
       "mset qs = mset (lista_diaconos gen)" by auto
  from b(2) have lq: "length qs = ?n" by (metis size_mset)
  obtain r where m: "m = k * ?n + (?n + r)" using assms(4) by (metis add.assoc le_Suc_ex)
  from sortear_chaves_ok[of "gen'\<lparr>chaves_usadas := qs\<rparr>" r g''] a(3) assms(2) obtain rs s' where
    c: "sortear_chaves r (gen'\<lparr>chaves_usadas := qs\<rparr>, g'') = (Inr rs, s')" "length rs = r" by auto
  have "sortear_chaves m (gen, g) = (Inr (ps @ qs @ rs), s')"
    unfolding m using a(1) b(1) c(1) by (simp add: sortear_chaves_add)
  moreover have "take ?n (drop (k * ?n) (ps @ qs @ rs)) = qs"
    using a(2) lq by simp
  ultimately show ?thesis using b(2) a(2) lq c(2) m by auto
qed

text \<open>
  C4, as stated, fails for a window that straddles two passes: with the roster A, B the
  picks can be A, B, B (the second pass starts with B), and the window of picks 2 and 3
  holds B twice and A never.
\<close>

theorem rotacao_janela_qualquer_counterexample:
  "fst (sortear_chaves 3
     (\<lparr>lista_diaconos = [''A'', ''B''], escala_gerada = [], chaves_usadas = [],
       chave_semanal = Map.empty\<rparr>, \<lparr>draws = (\<lambda>k. if k = 2 then 1 else 0), cursor = 0\<rparr>))
     = Inr [''A'', ''B'', ''B''] \<and>
   mset (take 2 (drop 1 [''A'', ''B'', ''B''])) \<noteq> mset [''A'', ''B'']"
  by (simp add: numeral_3_eq_3 obter_proximo_chave_circular_def random_choice_def Let_def)

theorem rotacao_janelas_alinhadas_witness:
  "distinct [''A'', ''B''] \<and> [''A'', ''B''] \<noteq> [] \<and> 1 * length [''A'', ''B''] + length [''A'', ''B''] \<le> 4 \<and>
   (\<exists>ps s'. sortear_chaves 4
     (\<lparr>lista_diaconos = [''A'', ''B''], escala_gerada = [], chaves_usadas = [],
       chave_semanal = Map.empty\<rparr>, \<lparr>draws = (\<lambda>k. if k = 2 then 1 else 0), cursor = 0\<rparr>) = (Inr ps, s')
     \<and> length ps = 4 \<and> mset (take 2 (drop 2 ps)) = mset [''A'', ''B''])"
  using rotacao_janelas_alinhadas [of "\<lparr>lista_diaconos = [''A'', ''B''], escala_gerada = [], chaves_usadas = [],
       chave_semanal = Map.empty\<rparr>" 1 4 "\<lparr>draws = (\<lambda>k. if k = 2 then 1 else 0), cursor = 0\<rparr>"]
  by (simp add: numeral_2_eq_2)

section \<open>Legacy weekly generation: what a call leaves behind\<close>

lemma sortear_ok:
  "xs \<noteq> [] \<Longrightarrow> \<exists>x. sortear_diacono xs g = (Inr x, g\<lparr>cursor := Suc (cursor g)\<rparr>) \<and> x \<in> set xs"
  by (simp add: sortear_diacono_def random_choice_def)

lemma sortear_vazio: "sortear_diacono [] g = (Inl ValueError_sem_disponiveis, g)"
  by (simp add: sortear_diacono_def)

lemma set_remover: "set (remover_diacono xs x) = set xs - {x}"
  by (auto simp: remover_diacono_def)

lemma remover_vazio:
  assumes x: "x \<in> set xs"
  shows "(remover_diacono xs x = []) = (card (set xs) = 1)"
proof
  assume "remover_diacono xs x = []"
  then have "set xs \<subseteq> {x}"
    by (auto simp: remover_diacono_def filter_empty_conv)
  with x have "set xs = {x}" by blast
  then show "card (set xs) = 1" by simp
next
  assume "card (set xs) = 1"
  then obtain y where y: "set xs = {y}" by (rule card_1_singletonE)
  with x have "y = x" by simp
  with y show "remover_diacono xs x = []"
    by (auto simp: remover_diacono_def filter_empty_conv)
qed

lemma card_remover:
  "x \<in> set xs \<Longrightarrow> card (set (remover_diacono xs x)) = card (set xs) - 1"
  by (simp add: set_remover)

lemma dia_sem_evitar:
  assumes "cells h r \<noteq> []"
  shows "\<exists>x y g'. adicionar_escala_dia d r False (gen, h, g) =
      (Inr (), (gen\<lparr>escala_gerada := escala_gerada gen @
          [\<lparr>nome = x, funcao = ''chave'', dia = d, data = None\<rparr>,
           \<lparr>nome = y, funcao = ''oferta'', dia = d, data = None\<rparr>]\<rparr>, h, g'))
    \<and> x \<in> set (cells h r) \<and> y \<in> set (cells h r)"
proof -
  from sortear_ok[OF assms, of g] obtain x where
    x: "sortear_diacono (cells h r) g = (Inr x, g\<lparr>cursor := Suc (cursor g)\<rparr>)" "x \<in> set (cells h r)"
    by blast
  from sortear_ok[OF assms, of "g\<lparr>cursor := Suc (cursor g)\<rparr>"] obtain y g' where
    y: "sortear_diacono (cells h r) (g\<lparr>cursor := Suc (cursor g)\<rparr>) = (Inr y, g')" "y \<in> set (cells h r)"
    by blast
  show ?thesis
    apply (rule exI[of _ x], rule exI[of _ y], rule exI[of _ g'])
    using x y by (simp add: adicionar_escala_dia_def)
qed

lemma dia_evitar_falha:
  assumes "cells h r \<noteq> []" "card (set (cells h r)) = 1"
  shows "\<exists>x h' g'. adicionar_escala_dia d r True (gen, h, g) =
      (Inl ValueError_sem_disponiveis, (gen\<lparr>escala_gerada := escala_gerada gen @
          [\<lparr>nome = x, funcao = ''chave'', dia = d, data = None\<rparr>]\<rparr>, h', g'))
    \<and> x \<in> set (cells h r)"
proof -
  from sortear_ok[OF assms(1), of g] obtain x where
    x: "sortear_diacono (cells h r) g = (Inr x, g\<lparr>cursor := Suc (cursor g)\<rparr>)" "x \<in> set (cells h r)"
    by blast
  from remover_vazio[OF x(2)] assms(2) have e: "remover_diacono (cells h r) x = []" by simp
  show ?thesis
    apply (intro exI[of _ x])
    using x e by (simp add: adicionar_escala_dia_def nova_lista_def sortear_vazio)
qed

lemma dia_evitar_ok:
  assumes "cells h r \<noteq> []" "card (set (cells h r)) \<noteq> 1" "r < livre h"
  shows "\<exists>x y h' g'. adicionar_escala_dia d r True (gen, h, g) =
      (Inr (), (gen\<lparr>escala_gerada := escala_gerada gen @
          [\<lparr>nome = x, funcao = ''chave'', dia = d, data = None\<rparr>,
           \<lparr>nome = y, funcao = ''oferta'', dia = d, data = None\<rparr>]\<rparr>, h', g'))
    \<and> x \<in> set (cells h r) \<and> y \<in> set (cells h r) \<and> x \<noteq> y
    \<and> cells h' r = cells h r \<and> r < livre h'"
proof -
  from sortear_ok[OF assms(1), of g] obtain x where
    x: "sortear_diacono (cells h r) g = (Inr x, g\<lparr>cursor := Suc (cursor g)\<rparr>)" "x \<in> set (cells h r)"
    by blast
  let ?pool = "remover_diacono (cells h r) x"
  from remover_vazio[OF x(2)] assms(2) have ne: "?pool \<noteq> []" by simp
  from sortear_ok[OF ne, of "g\<lparr>cursor := Suc (cursor g)\<rparr>"] obtain y g' where
    y: "sortear_diacono ?pool (g\<lparr>cursor := Suc (cursor g)\<rparr>) = (Inr y, g')" "y \<in> set ?pool"
    by blast
  from y(2) have yx: "y \<in> set (cells h r)" "x \<noteq> y" by (auto simp: set_remover)
  have rm: "list_remove y ?pool = Inr (remove1 y ?pool)" using y(2) by (simp add: list_remove_def)
  show ?thesis
    apply (rule exI[of _ x], rule exI[of _ y])
    using x y(1) yx rm assms(3)
    by (simp add: adicionar_escala_dia_def nova_lista_def)
qed

lemma sab_sem_evitar:
  assumes "cells h r \<noteq> []"
  shows "\<exists>x y z g'. adicionar_escala_sabado r False (gen, h, g) =
      (Inr (), (gen\<lparr>escala_gerada := escala_gerada gen @
          [\<lparr>nome = x, funcao = ''chave'', dia = ''sabado'', data = None\<rparr>,
           \<lparr>nome = y, funcao = ''oferta'', dia = ''sabado'', data = None\<rparr>,
           \<lparr>nome = z, funcao = ''oferta'', dia = ''sabado'', data = None\<rparr>]\<rparr>, h, g'))
    \<and> x \<in> set (cells h r) \<and> y \<in> set (cells h r) \<and> z \<in> set (cells h r)"
proof -
  from sortear_ok[OF assms, of g] obtain x g1 where
    x: "sortear_diacono (cells h r) g = (Inr x, g1)" "x \<in> set (cells h r)"
    by blast
  from sortear_ok[OF assms, of g1] obtain y g2 where
    y: "sortear_diacono (cells h r) g1 = (Inr y, g2)" "y \<in> set (cells h r)"
    by blast
  from sortear_ok[OF assms, of g2] obtain z g3 where
    z: "sortear_diacono (cells h r) g2 = (Inr z, g3)" "z \<in> set (cells h r)"
    by blast
  show ?thesis
    apply (rule exI[of _ x], rule exI[of _ y], rule exI[of _ z], rule exI[of _ g3])
    using x y z by (simp add: adicionar_escala_sabado_def numeral_2_eq_2)
qed

lemma sab_evitar_falha1:
  assumes "cells h r \<noteq> []" "card (set (cells h r)) = 1"
  shows "\<exists>x h' g'. adicionar_escala_sabado r True (gen, h, g) =
      (Inl ValueError_sem_disponiveis, (gen\<lparr>escala_gerada := escala_gerada gen @
          [\<lparr>nome = x, funcao = ''chave'', dia = ''sabado'', data = None\<rparr>]\<rparr>, h', g'))
    \<and> x \<in> set (cells h r)"
proof -
  from sortear_ok[OF assms(1), of g] obtain x where
    x: "sortear_diacono (cells h r) g = (Inr x, g\<lparr>cursor := Suc (cursor g)\<rparr>)" "x \<in> set (cells h r)"
    by blast
  from remover_vazio[OF x(2)] assms(2) have e: "remover_diacono (cells h r) x = []" by simp
  show ?thesis
    apply (intro exI[of _ x])
    using x e
    by (simp add: adicionar_escala_sabado_def nova_lista_def sortear_vazio numeral_2_eq_2)
qed

lemma sab_evitar_falha2:
  assumes "cells h r \<noteq> []" "card (set (cells h r)) = 2"
  shows "\<exists>x y h' g'. adicionar_escala_sabado r True (gen, h, g) =
      (Inl ValueError_sem_disponiveis, (gen\<lparr>escala_gerada := escala_gerada gen @
          [\<lparr>nome = x, funcao = ''chave'', dia = ''sabado'', data = None\<rparr>,
           \<lparr>nome = y, funcao = ''oferta'', dia = ''sabado'', data = None\<rparr>]\<rparr>, h', g'))
    \<and> x \<in> set (cells h r) \<and> y \<in> set (cells h r)"
proof -
  from sortear_ok[OF assms(1), of g] obtain x g1 where
    x: "sortear_diacono (cells h r) g = (Inr x, g1)" "x \<in> set (cells h r)"
    by blast
  let ?p1 = "remover_diacono (cells h r) x"
  from remover_vazio[OF x(2)] assms(2) have ne: "?p1 \<noteq> []" by simp
  from sortear_ok[OF ne, of g1] obtain y g2 where
    y: "sortear_diacono ?p1 g1 = (Inr y, g2)" "y \<in> set ?p1"
    by blast
  from y(2) have yl: "y \<in> set (cells h r)" by (simp add: set_remover)
  have "card (set ?p1) = 1" using card_remover[OF x(2)] assms(2) by simp
  with remover_vazio[OF y(2)] have e: "remover_diacono ?p1 y = []" by simp
  show ?thesis
    apply (rule exI[of _ x], rule exI[of _ y])
    using x y(1) e yl
    by (simp add: adicionar_escala_sabado_def nova_lista_def sortear_vazio numeral_2_eq_2)
qed

lemma sab_evitar_ok:
  assumes "cells h r \<noteq> []" "3 \<le> card (set (cells h r))"
  shows "\<exists>x y z h' g'. adicionar_escala_sabado r True (gen, h, g) =
      (Inr (), (gen\<lparr>escala_gerada := escala_gerada gen @
          [\<lparr>nome = x, funcao = ''chave'', dia = ''sabado'', data = None\<rparr>,
           \<lparr>nome = y, funcao = ''oferta'', dia = ''sabado'', data = None\<rparr>,
           \<lparr>nome = z, funcao = ''oferta'', dia = ''sabado'', data = None\<rparr>]\<rparr>, h', g'))
    \<and> x \<in> set (cells h r) \<and> y \<in> set (cells h r) \<and> z \<in> set (cells h r)
    \<and> x \<noteq> y \<and> x \<noteq> z \<and> y \<noteq> z"
proof -
  from sortear_ok[OF assms(1), of g] obtain x g1 where
    x: "sortear_diacono (cells h r) g = (Inr x, g1)" "x \<in> set (cells h r)"
    by blast
  let ?p1 = "remover_diacono (cells h r) x"
  from remover_vazio[OF x(2)] assms(2) have ne: "?p1 \<noteq> []" by simp
  from sortear_ok[OF ne, of g1] obtain y g2 where
    y: "sortear_diacono ?p1 g1 = (Inr y, g2)" "y \<in> set ?p1"
    by blast
  let ?p2 = "remover_diacono ?p1 y"
  have "card (set ?p1) \<noteq> 1" using card_remover[OF x(2)] assms(2) by simp
  with remover_vazio[OF y(2)] have ne2: "?p2 \<noteq> []" by simp
  from sortear_ok[OF ne2, of g2] obtain z g3 where
    z: "sortear_diacono ?p2 g2 = (Inr z, g3)" "z \<in> set ?p2"
    by blast
  from y(2) z(2) have m: "y \<in> set (cells h r)" "z \<in> set (cells h r)" "x \<noteq> y" "x \<noteq> z" "y \<noteq> z"
    by (auto simp: set_remover)
  show ?thesis
    apply (rule exI[of _ x], rule exI[of _ y], rule exI[of _ z])
    using x y(1) z(1) m
    by (simp add: adicionar_escala_sabado_def nova_lista_def numeral_2_eq_2)
qed

lemma gerar_semanal_unfold:
  "gerar_escala_semanal ev (gen, g) =
     (case adicionar_escala_dia ''domingo'' 0 ev
             (gen\<lparr>escala_gerada := [], chaves_usadas := []\<rparr>,
              snd (nova_lista (lista_diaconos gen) \<lparr>cells = (\<lambda>_. []), livre = 0\<rparr>), g) of
        (Inl e, (gen1, h1, g1)) \<Rightarrow> (Inl e, (gen1, g1))
      | (Inr _, s1) \<Rightarrow>
          (case adicionar_escala_dia ''quarta'' 0 ev s1 of
             (Inl e, (gen2, h2, g2)) \<Rightarrow> (Inl e, (gen2, g2))
           | (Inr _, s2) \<Rightarrow>
               (case adicionar_escala_sabado 0 ev s2 of
                  (Inl e, (gen3, h3, g3)) \<Rightarrow> (Inl e, (gen3, g3))
                | (Inr _, (gen3, h3, g3)) \<Rightarrow> (Inr (escala_gerada gen3), (gen3, g3)))))"
  by (simp add: gerar_escala_semanal_def nova_lista_def)

lemma h0_facts:
  "cells (snd (nova_lista L \<lparr>cells = (\<lambda>_. []), livre = 0\<rparr>)) 0 = L"
  "0 < livre (snd (nova_lista L \<lparr>cells = (\<lambda>_. []), livre = 0\<rparr>))"
  by (simp_all add: nova_lista_def)

lemma semanal_sem_evitar:
  assumes "lista_diaconos gen \<noteq> []"
  shows "\<exists>n1 n2 n3 n4 n5 n6 n7 gen' g'.
     gerar_escala_semanal False (gen, g) = (Inr (escala_gerada gen'), (gen', g'))
   \<and> gen' = gen\<lparr>escala_gerada :=
       [\<lparr>nome = n1, funcao = ''chave'', dia = ''domingo'', data = None\<rparr>,
        \<lparr>nome = n2, funcao = ''oferta'', dia = ''domingo'', data = None\<rparr>,
        \<lparr>nome = n3, funcao = ''chave'', dia = ''quarta'', data = None\<rparr>,
        \<lparr>nome = n4, funcao = ''oferta'', dia = ''quarta'', data = None\<rparr>,
        \<lparr>nome = n5, funcao = ''chave'', dia = ''sabado'', data = None\<rparr>,
        \<lparr>nome = n6, funcao = ''oferta'', dia = ''sabado'', data = None\<rparr>,
        \<lparr>nome = n7, funcao = ''oferta'', dia = ''sabado'', data = None\<rparr>], chaves_usadas := []\<rparr>
   \<and> set [n1, n2, n3, n4, n5, n6, n7] \<subseteq> set (lista_diaconos gen)"
proof -
  let ?L = "lista_diaconos gen"
  let ?h0 = "snd (nova_lista ?L \<lparr>cells = (\<lambda>_. []), livre = 0\<rparr>)"
  let ?gen0 = "gen\<lparr>escala_gerada := [], chaves_usadas := []\<rparr>"
  have c: "cells ?h0 0 \<noteq> []" using assms by (simp add: h0_facts)
  from dia_sem_evitar[OF c, of "''domingo''" ?gen0 g] obtain n1 n2 gen1 g1 where
    d: "adicionar_escala_dia ''domingo'' 0 False (?gen0, ?h0, g) = (Inr (), (gen1, ?h0, g1))"
       "gen1 = ?gen0\<lparr>escala_gerada := escala_gerada ?gen0 @
          [\<lparr>nome = n1, funcao = ''chave'', dia = ''domingo'', data = None\<rparr>,
           \<lparr>nome = n2, funcao = ''oferta'', dia = ''domingo'', data = None\<rparr>]\<rparr>"
       "n1 \<in> set ?L" "n2 \<in> set ?L"
    by (auto simp: h0_facts)
  from dia_sem_evitar[OF c, of "''quarta''" gen1 g1] obtain n3 n4 gen2 g2 where
    q: "adicionar_escala_dia ''quarta'' 0 False (gen1, ?h0, g1) = (Inr (), (gen2, ?h0, g2))"
       "gen2 = gen1\<lparr>escala_gerada := escala_gerada gen1 @
          [\<lparr>nome = n3, funcao = ''chave'', dia = ''quarta'', data = None\<rparr>,
           \<lparr>nome = n4, funcao = ''oferta'', dia = ''quarta'', data = None\<rparr>]\<rparr>"
       "n3 \<in> set ?L" "n4 \<in> set ?L"
    by (auto simp: h0_facts)
  from sab_sem_evitar[OF c, of gen2 g2] obtain n5 n6 n7 gen3 g3 where
    s: "adicionar_escala_sabado 0 False (gen2, ?h0, g2) = (Inr (), (gen3, ?h0, g3))"
       "gen3 = gen2\<lparr>escala_gerada := escala_gerada gen2 @
          [\<lparr>nome = n5, funcao = ''chave'', dia = ''sabado'', data = None\<rparr>,
           \<lparr>nome = n6, funcao = ''oferta'', dia = ''sabado'', data = None\<rparr>,
           \<lparr>nome = n7, funcao = ''oferta'', dia = ''sabado'', data = None\<rparr>]\<rparr>"
       "n5 \<in> set ?L" "n6 \<in> set ?L" "n7 \<in> set ?L"
    by (auto simp: h0_facts)
  have r: "gerar_escala_semanal False (gen, g) = (Inr (escala_gerada gen3), (gen3, g3))"
    unfolding gerar_semanal_unfold by (simp add: d(1) q(1) s(1))
  show ?thesis
    apply (rule exI[of _ n1], rule exI[of _ n2], rule exI[of _ n3], rule exI[of _ n4])
    apply (rule exI[of _ n5], rule exI[of _ n6], rule exI[of _ n7])
    apply (rule exI[of _ gen3], rule exI[of _ g3])
    using r d(2-) q(2-) s(2-) by simp
qed

lemma semanal_evitar_ok:
  assumes "3 \<le> card (set (lista_diaconos gen))"
  shows "\<exists>n1 n2 n3 n4 n5 n6 n7 gen' g'.
     gerar_escala_semanal True (gen, g) = (Inr (escala_gerada gen'), (gen', g'))
   \<and> gen' = gen\<lparr>escala_gerada :=
       [\<lparr>nome = n1, funcao = ''chave'', dia = ''domingo'', data = None\<rparr>,
        \<lparr>nome = n2, funcao = ''oferta'', dia = ''domingo'', data = None\<rparr>,
        \<lparr>nome = n3, funcao = ''chave'', dia = ''quarta'', data = None\<rparr>,
        \<lparr>nome = n4, funcao = ''oferta'', dia = ''quarta'', data = None\<rparr>,
        \<lparr>nome = n5, funcao = ''chave'', dia = ''sabado'', data = None\<rparr>,
        \<lparr>nome = n6, funcao = ''oferta'', dia = ''sabado'', data = None\<rparr>,
        \<lparr>nome = n7, funcao = ''oferta'', dia = ''sabado'', data = None\<rparr>], chaves_usadas := []\<rparr>
   \<and> set [n1, n2, n3, n4, n5, n6, n7] \<subseteq> set (lista_diaconos gen)
   \<and> n1 \<noteq> n2 \<and> n3 \<noteq> n4 \<and> distinct [n5, n6, n7]"
proof -
  let ?L = "lista_diaconos gen"
  let ?h0 = "snd (nova_lista ?L \<lparr>cells = (\<lambda>_. []), livre = 0\<rparr>)"
  let ?gen0 = "gen\<lparr>escala_gerada := [], chaves_usadas := []\<rparr>"
  from assms have ne: "?L \<noteq> []" by auto
  have c: "cells ?h0 0 \<noteq> []" "card (set (cells ?h0 0)) \<noteq> 1" "0 < livre ?h0"
    using assms ne by (simp_all add: h0_facts)
  from dia_evitar_ok[OF c, of "''domingo''" ?gen0 g] obtain n1 n2 gen1 h1 g1 where
    d: "adicionar_escala_dia ''domingo'' 0 True (?gen0, ?h0, g) = (Inr (), (gen1, h1, g1))"
       "gen1 = ?gen0\<lparr>escala_gerada := escala_gerada ?gen0 @
          [\<lparr>nome = n1, funcao = ''chave'', dia = ''domingo'', data = None\<rparr>,
           \<lparr>nome = n2, funcao = ''oferta'', dia = ''domingo'', data = None\<rparr>]\<rparr>"
       "n1 \<in> set ?L" "n2 \<in> set ?L" "n1 \<noteq> n2" "cells h1 0 = ?L" "0 < livre h1"
    by (auto simp: h0_facts)
  have c1: "cells h1 0 \<noteq> []" "card (set (cells h1 0)) \<noteq> 1" "0 < livre h1"
    using assms ne d(6,7) by simp_all
  from dia_evitar_ok[OF c1, of "''quarta''" gen1 g1] obtain n3 n4 gen2 h2 g2 where
    q: "adicionar_escala_dia ''quarta'' 0 True (gen1, h1, g1) = (Inr (), (gen2, h2, g2))"
       "gen2 = gen1\<lparr>escala_gerada := escala_gerada gen1 @
          [\<lparr>nome = n3, funcao = ''chave'', dia = ''quarta'', data = None\<rparr>,
           \<lparr>nome = n4, funcao = ''oferta'', dia = ''quarta'', data = None\<rparr>]\<rparr>"
       "n3 \<in> set ?L" "n4 \<in> set ?L" "n3 \<noteq> n4" "cells h2 0 = ?L" "0 < livre h2"
    by (auto simp: d(6))
  have c2: "cells h2 0 \<noteq> []" "3 \<le> card (set (cells h2 0))"
    using assms ne q(6) by simp_all
  from sab_evitar_ok[OF c2, of gen2 g2] obtain n5 n6 n7 gen3 h3 g3 where
    s: "adicionar_escala_sabado 0 True (gen2, h2, g2) = (Inr (), (gen3, h3, g3))"
       "gen3 = gen2\<lparr>escala_gerada := escala_gerada gen2 @
          [\<lparr>nome = n5, funcao = ''chave'', dia = ''sabado'', data = None\<rparr>,
           \<lparr>nome = n6, funcao = ''oferta'', dia = ''sabado'', data = None\<rparr>,
           \<lparr>nome = n7, funcao = ''oferta'', dia = ''sabado'', data = None\<rparr>]\<rparr>"
       "n5 \<in> set ?L" "n6 \<in> set ?L" "n7 \<in> set ?L" "n5 \<noteq> n6" "n5 \<noteq> n7" "n6 \<noteq> n7"
    by (auto simp: q(6))
  have r: "gerar_escala_semanal True (gen, g) = (Inr (escala_gerada gen3), (gen3, g3))"
    unfolding gerar_semanal_unfold by (simp add: d(1) q(1) s(1))
  show ?thesis
    apply (rule exI[of _ n1], rule exI[of _ n2], rule exI[of _ n3], rule exI[of _ n4])
    apply (rule exI[of _ n5], rule exI[of _ n6], rule exI[of _ n7])
    apply (rule exI[of _ gen3], rule exI[of _ g3])
    using r d(2-5) q(2-5) s(2-) by simp
qed

lemma semanal_evitar_falha1:
  assumes "card (set (lista_diaconos gen)) = 1"
  shows "\<exists>n1 gen' g'.
     gerar_escala_semanal True (gen, g) = (Inl ValueError_sem_disponiveis, (gen', g'))
   \<and> gen' = gen\<lparr>escala_gerada :=
       [\<lparr>nome = n1, funcao = ''chave'', dia = ''domingo'', data = None\<rparr>], chaves_usadas := []\<rparr>
   \<and> n1 \<in> set (lista_diaconos gen)"
proof -
  let ?L = "lista_diaconos gen"
  let ?h0 = "snd (nova_lista ?L \<lparr>cells = (\<lambda>_. []), livre = 0\<rparr>)"
  let ?gen0 = "gen\<lparr>escala_gerada := [], chaves_usadas := []\<rparr>"
  from assms have ne: "?L \<noteq> []" by auto
  have c: "cells ?h0 0 \<noteq> []" "card (set (cells ?h0 0)) = 1"
    using assms ne by (simp_all add: h0_facts)
  from dia_evitar_falha[OF c, of "''domingo''" ?gen0 g] obtain n1 gen1 h1 g1 where
    d: "adicionar_escala_dia ''domingo'' 0 True (?gen0, ?h0, g) =
          (Inl ValueError_sem_disponiveis, (gen1, h1, g1))"
       "gen1 = ?gen0\<lparr>escala_gerada := escala_gerada ?gen0 @
          [\<lparr>nome = n1, funcao = ''chave'', dia = ''domingo'', data = None\<rparr>]\<rparr>"
       "n1 \<in> set ?L"
    by (auto simp: h0_facts)
  have r: "gerar_escala_semanal True (gen, g) = (Inl ValueError_sem_disponiveis, (gen1, g1))"
    unfolding gerar_semanal_unfold by (simp add: d(1))
  show ?thesis
    apply (rule exI[of _ n1], rule exI[of _ gen1], rule exI[of _ g1])
    using r d(2,3) by simp
qed

lemma semanal_evitar_falha2:
  assumes "card (set (lista_diaconos gen)) = 2"
  shows "\<exists>n1 n2 n3 n4 n5 n6 gen' g'.
     gerar_escala_semanal True (gen, g) = (Inl ValueError_sem_disponiveis, (gen', g'))
   \<and> gen' = gen\<lparr>escala_gerada :=
       [\<lparr>nome = n1, funcao = ''chave'', dia = ''domingo'', data = None\<rparr>,
        \<lparr>nome = n2, funcao = ''oferta'', dia = ''domingo'', data = None\<rparr>,
        \<lparr>nome = n3, funcao = ''chave'', dia = ''quarta'', data = None\<rparr>,
        \<lparr>nome = n4, funcao = ''oferta'', dia = ''quarta'', data = None\<rparr>,
        \<lparr>nome = n5, funcao = ''chave'', dia = ''sabado'', data = None\<rparr>,
        \<lparr>nome = n6, funcao = ''oferta'', dia = ''sabado'', data = None\<rparr>], chaves_usadas := []\<rparr>
   \<and> set [n1, n2, n3, n4, n5, n6] \<subseteq> set (lista_diaconos gen)"
proof -
  let ?L = "lista_diaconos gen"
  let ?h0 = "snd (nova_lista ?L \<lparr>cells = (\<lambda>_. []), livre = 0\<rparr>)"
  let ?gen0 = "gen\<lparr>escala_gerada := [], chaves_usadas := []\<rparr>"
  from assms have ne: "?L \<noteq> []" by auto
  have c: "cells ?h0 0 \<noteq> []" "card (set (cells ?h0 0)) \<noteq> 1" "0 < livre ?h0"
    using assms ne by (simp_all add: h0_facts)
  from dia_evitar_ok[OF c, of "''domingo''" ?gen0 g] obtain n1 n2 gen1 h1 g1 where
    d: "adicionar_escala_dia ''domingo'' 0 True (?gen0, ?h0, g) = (Inr (), (gen1, h1, g1))"
       "gen1 = ?gen0\<lparr>escala_gerada := escala_gerada ?gen0 @
          [\<lparr>nome = n1, funcao = ''chave'', dia = ''domingo'', data = None\<rparr>,
           \<lparr>nome = n2, funcao = ''oferta'', dia = ''domingo'', data = None\<rparr>]\<rparr>"
       "cells h1 0 = ?L" "0 < livre h1" "n1 \<in> set ?L" "n2 \<in> set ?L"
    by (auto simp: h0_facts)
  have c1: "cells h1 0 \<noteq> []" "card (set (cells h1 0)) \<noteq> 1" "0 < livre h1"
    using assms ne d(3,4) by simp_all
  from dia_evitar_ok[OF c1, of "''quarta''" gen1 g1] obtain n3 n4 gen2 h2 g2 where
    q: "adicionar_escala_dia ''quarta'' 0 True (gen1, h1, g1) = (Inr (), (gen2, h2, g2))"
       "gen2 = gen1\<lparr>escala_gerada := escala_gerada gen1 @
          [\<lparr>nome = n3, funcao = ''chave'', dia = ''quarta'', data = None\<rparr>,
           \<lparr>nome = n4, funcao = ''oferta'', dia = ''quarta'', data = None\<rparr>]\<rparr>"
       "cells h2 0 = ?L" "n3 \<in> set ?L" "n4 \<in> set ?L"
    by (auto simp: d(3))
  have c2: "cells h2 0 \<noteq> []" "card (set (cells h2 0)) = 2"
    using assms ne q(3) by simp_all
  from sab_evitar_falha2[OF c2, of gen2 g2] obtain n5 n6 gen3 h3 g3 where
    s: "adicionar_escala_sabado 0 True (gen2, h2, g2) =
          (Inl ValueError_sem_disponiveis, (gen3, h3, g3))"
       "gen3 = gen2\<lparr>escala_gerada := escala_gerada gen2 @
          [\<lparr>nome = n5, funcao = ''chave'', dia = ''sabado'', data = None\<rparr>,
           \<lparr>nome = n6, funcao = ''oferta'', dia = ''sabado'', data = None\<rparr>]\<rparr>"
       "n5 \<in> set ?L" "n6 \<in> set ?L"
    by (auto simp: q(3))
  have r: "gerar_escala_semanal True (gen, g) = (Inl ValueError_sem_disponiveis, (gen3, g3))"
    unfolding gerar_semanal_unfold by (simp add: d(1) q(1) s(1))
  show ?thesis
    apply (rule exI[of _ n1], rule exI[of _ n2], rule exI[of _ n3], rule exI[of _ n4])
    apply (rule exI[of _ n5], rule exI[of _ n6])
    apply (rule exI[of _ gen3], rule exI[of _ g3])
    using r d(2,5,6) q(2,4,5) s(2,3,4) by simp
qed

lemma semanal_lista_vazia:
  "lista_diaconos gen = [] \<Longrightarrow>
   gerar_escala_semanal ev (gen, g) =
     (Inl ValueError_sem_disponiveis, (gen\<lparr>escala_gerada := [], chaves_usadas := []\<rparr>, g))"
  by (simp add: gerar_escala_semanal_def nova_lista_def adicionar_escala_dia_def sortear_vazio)

text \<open>
  C1. With \<open>evitar_repeticao\<close> set, a helper removes the names it drew from a list of
  its own: \<open>_remover_diacono\<close> builds a new list and the parameter is rebound to it, so
  the list of \<open>gerar_escala_semanal\<close> is never shortened and every day draws from the
  whole roster. With eight distinct names and a random source whose every draw selects
  index 0, the week is A, B (Sunday), A, B (Wednesday), A, B, C (Saturday): names repeat
  although the roster has more than five names.
\<close>

theorem gerar_escala_semanal_repete_nomes:
  "fst (gerar_escala_semanal True
     (\<lparr>lista_diaconos = [''A'', ''B'', ''C'', ''D'', ''E'', ''F'', ''G'', ''H''], escala_gerada = [],
        chaves_usadas = [], chave_semanal = Map.empty\<rparr>, \<lparr>draws = (\<lambda>_. 0), cursor = 0\<rparr>))
   = Inr [\<lparr>nome = ''A'', funcao = ''chave'', dia = ''domingo'', data = None\<rparr>,
          \<lparr>nome = ''B'', funcao = ''oferta'', dia = ''domingo'', data = None\<rparr>,
          \<lparr>nome = ''A'', funcao = ''chave'', dia = ''quarta'', data = None\<rparr>,
          \<lparr>nome = ''B'', funcao = ''oferta'', dia = ''quarta'', data = None\<rparr>,
          \<lparr>nome = ''A'', funcao = ''chave'', dia = ''sabado'', data = None\<rparr>,
          \<lparr>nome = ''B'', funcao = ''oferta'', dia = ''sabado'', data = None\<rparr>,
          \<lparr>nome = ''C'', funcao = ''oferta'', dia = ''sabado'', data = None\<rparr>] \<and>
   \<not> distinct [''A'', ''B'', ''A'', ''B'', ''A'', ''B'', ''C'']"
  by (simp add: gerar_escala_semanal_def adicionar_escala_dia_def adicionar_escala_sabado_def
      sortear_diacono_def random_choice_def remover_diacono_def nova_lista_def list_remove_def
      Let_def numeral_2_eq_2)




lemma semanal_registros_validos:
  "list_all registro_valido (escala_gerada (fst (snd (gerar_escala_semanal ev (gen, g)))))"
proof (cases "lista_diaconos gen = []")
  case True
  then show ?thesis by (simp add: semanal_lista_vazia)
next
  case ne: False
  then have pos: "0 < card (set (lista_diaconos gen))"
    by (simp add: card_gt_0_iff)
  consider (a) "\<not> ev" | (b) "ev" "3 \<le> card (set (lista_diaconos gen))"
    | (c) "ev" "card (set (lista_diaconos gen)) = 1"
    | (d) "ev" "card (set (lista_diaconos gen)) = 2"
    using pos by linarith
  then show ?thesis
  proof cases
    case a
    with semanal_sem_evitar[OF ne, of g] show ?thesis
      by (auto simp: registro_valido_def DIAS_ESCALA_def)
  next
    case b
    with semanal_evitar_ok[OF b(2), of g] show ?thesis
      by (auto simp: registro_valido_def DIAS_ESCALA_def)
  next
    case c
    with semanal_evitar_falha1[OF c(2), of g] show ?thesis
      by (auto simp: registro_valido_def DIAS_ESCALA_def)
  next
    case d
    with semanal_evitar_falha2[OF d(2), of g] show ?thesis
      by (auto simp: registro_valido_def DIAS_ESCALA_def)
  qed
qed

section \<open>Date enumeration: the lists of a year\<close>

lemma py_date_jan1:
  "1 \<le> ano \<Longrightarrow> ano \<le> 9999 \<Longrightarrow> py_date ano 1 1 = Inr (days_before_year ano + 1)"
  by (simp add: py_date_def INT_MIN_def INT_MAX_def MINYEAR_def MAXYEAR_def days_in_month_def
      DAYS_IN_MONTH_def ymd2ord_def days_before_month_def)

lemma py_date_dez31:
  "1 \<le> ano \<Longrightarrow> ano \<le> 9999 \<Longrightarrow>
   py_date ano 12 31 = Inr (days_before_year ano + (if is_leap ano then 366 else 365))"
  by (simp add: py_date_def INT_MIN_def INT_MAX_def MINYEAR_def MAXYEAR_def days_in_month_def
      DAYS_IN_MONTH_def ymd2ord_def days_before_month_def)

lemma py_date_fora:
  "ano < 1 \<or> 9999 < ano \<Longrightarrow> \<exists>e. py_date ano m d = Inl e"
  by (auto simp: py_date_def MINYEAR_def MAXYEAR_def)

lemma calcular_datas_ano_puro: "snd (calcular_datas_ano ano s) = s"
  by (simp add: calcular_datas_ano_def split: sum.splits)

lemma days_before_year_bounds:
  assumes "1 \<le> ano"
  shows "(ano - 1) * 365 \<le> days_before_year ano"
    and "days_before_year ano \<le> (ano - 1) * 365 + (ano - 1) div 4"
proof -
  let ?y = "ano - 1"
  have y: "0 \<le> ?y" using assms by simp
  have a: "?y div 100 \<le> ?y div 4" using y by (intro zdiv_mono2) simp_all
  have b: "?y div 400 \<le> ?y div 100" using y by (intro zdiv_mono2) simp_all
  have c: "0 \<le> ?y div 400" using y by (simp add: pos_imp_zdiv_nonneg_iff)
  show "(ano - 1) * 365 \<le> days_before_year ano"
    using a c by (simp add: days_before_year_def Let_def)
  show "days_before_year ano \<le> (ano - 1) * 365 + (ano - 1) div 4"
    using b by (simp add: days_before_year_def Let_def)
qed

lemma days_before_year_pos: "1 \<le> ano \<Longrightarrow> 0 \<le> days_before_year ano"
  using days_before_year_bounds(1)[of ano] by simp

lemma days_before_year_ge2: "2 \<le> ano \<Longrightarrow> 365 \<le> days_before_year ano"
  using days_before_year_bounds(1)[of ano] by simp

lemma days_before_year_max:
  assumes "1 \<le> ano" "ano \<le> 9998"
  shows "days_before_year ano + 366 < MAXORDINAL"
proof -
  have "(ano - 1) div 4 \<le> 9997 div 4" using assms(2) by (intro zdiv_mono1) simp_all
  then have "(ano - 1) div 4 \<le> 2499" by simp
  with days_before_year_bounds(2)[OF assms(1)] assms(2) show ?thesis
    by (simp add: MAXORDINAL_def)
qed

lemma days_before_year_9999: "days_before_year 9999 + 365 = MAXORDINAL"
  by (simp add: days_before_year_def MAXORDINAL_def)

lemma is_leap_9999: "\<not> is_leap 9999"
  by (simp add: is_leap_def)


lemma calcular_loop_fim:
  "b < a \<Longrightarrow> calcular_loop a b acc = Inr acc"
  by (subst calcular_loop.simps) simp

lemma calcular_loop_passo:
  assumes "a \<le> b" "0 \<le> a" "a < MAXORDINAL"
  shows "calcular_loop a b [(''domingo'', D), (''quarta'', Q), (''sabado'', S)] =
     calcular_loop (a + 1) b
       [(''domingo'', D @ filter (\<lambda>d. weekday d = 6) [a]),
        (''quarta'', Q @ filter (\<lambda>d. weekday d = 2) [a]),
        (''sabado'', S @ filter (\<lambda>d. weekday d = 5) [a])]"
proof -
  have da: "date_add a 1 = Inr (a + 1)" using assms(2,3) by (simp add: date_add_def)
  show ?thesis
    by (subst calcular_loop.simps)
       (simp add: assms(1) da MAPA_DIAS_SEMANA_def dict_append_def Let_def)
qed

lemma calcular_loop_exato:
  "0 \<le> a \<Longrightarrow> b < MAXORDINAL \<Longrightarrow> n = nat (b + 1 - a) \<Longrightarrow>
   calcular_loop a b [(''domingo'', D), (''quarta'', Q), (''sabado'', S)] =
     Inr [(''domingo'', D @ filter (\<lambda>d. weekday d = 6) [a..b]),
          (''quarta'', Q @ filter (\<lambda>d. weekday d = 2) [a..b]),
          (''sabado'', S @ filter (\<lambda>d. weekday d = 5) [a..b])]"
proof (induction n arbitrary: a D Q S)
  case 0
  then have "b < a" by simp
  then show ?case by (simp add: calcular_loop_fim)
next
  case (Suc n)
  then have ab: "a \<le> b" by simp
  have n: "n = nat (b + 1 - (a + 1))" using Suc.prems(3) by simp
  have up: "[a..b] = a # [a + 1..b]" using ab by (rule upto_rec1)
  have "calcular_loop a b [(''domingo'', D), (''quarta'', Q), (''sabado'', S)] =
     calcular_loop (a + 1) b
       [(''domingo'', D @ filter (\<lambda>d. weekday d = 6) [a]),
        (''quarta'', Q @ filter (\<lambda>d. weekday d = 2) [a]),
        (''sabado'', S @ filter (\<lambda>d. weekday d = 5) [a])]"
    using ab Suc.prems(1,2) by (intro calcular_loop_passo) simp_all
  also have "\<dots> = Inr [(''domingo'', (D @ filter (\<lambda>d. weekday d = 6) [a]) @ filter (\<lambda>d. weekday d = 6) [a + 1..b]),
          (''quarta'', (Q @ filter (\<lambda>d. weekday d = 2) [a]) @ filter (\<lambda>d. weekday d = 2) [a + 1..b]),
          (''sabado'', (S @ filter (\<lambda>d. weekday d = 5) [a]) @ filter (\<lambda>d. weekday d = 5) [a + 1..b])]"
    using Suc.prems(1,2) n by (intro Suc.IH) simp_all
  finally show ?case by (simp add: up)
qed

lemma calcular_loop_overflow:
  "0 \<le> a \<Longrightarrow> a \<le> MAXORDINAL \<Longrightarrow> n = nat (MAXORDINAL - a) \<Longrightarrow>
   calcular_loop a MAXORDINAL [(''domingo'', D), (''quarta'', Q), (''sabado'', S)] =
     Inl OverflowError_date_out_of_range"
proof (induction n arbitrary: a D Q S)
  case 0
  then have a: "a = MAXORDINAL" by simp
  have "date_add MAXORDINAL 1 = Inl OverflowError_date_out_of_range"
    by (simp add: date_add_def)
  then show ?case unfolding a by (subst calcular_loop.simps) (simp add: Let_def)
next
  case (Suc n)
  then have lt: "a < MAXORDINAL" by simp
  have "calcular_loop a MAXORDINAL [(''domingo'', D), (''quarta'', Q), (''sabado'', S)] =
     calcular_loop (a + 1) MAXORDINAL
       [(''domingo'', D @ filter (\<lambda>d. weekday d = 6) [a]),
        (''quarta'', Q @ filter (\<lambda>d. weekday d = 2) [a]),
        (''sabado'', S @ filter (\<lambda>d. weekday d = 5) [a])]"
    using lt Suc.prems(1) by (intro calcular_loop_passo) simp_all
  also have "\<dots> = Inl OverflowError_date_out_of_range"
    using Suc.prems lt by (intro Suc.IH) simp_all
  finally show ?case .
qed

lemma primeiro_dia_eq: "primeiro_dia ano = days_before_year ano + 1"
  by (simp add: primeiro_dia_def ymd2ord_def days_before_month_def)

lemma ultimo_dia_eq: "ultimo_dia ano = days_before_year ano + (if is_leap ano then 366 else 365)"
  by (simp add: ultimo_dia_def ymd2ord_def days_before_month_def DAYS_IN_MONTH_def)

lemma calcular_datas_ano_exato:
  assumes "1 \<le> ano" "ano \<le> 9998"
  shows "calcular_datas_ano ano s =
     (Inr [(''domingo'', filter (\<lambda>d. weekday d = 6) [primeiro_dia ano..ultimo_dia ano]),
           (''quarta'', filter (\<lambda>d. weekday d = 2) [primeiro_dia ano..ultimo_dia ano]),
           (''sabado'', filter (\<lambda>d. weekday d = 5) [primeiro_dia ano..ultimo_dia ano])], s)"
proof -
  have a: "0 \<le> primeiro_dia ano"
    using days_before_year_pos[OF assms(1)] by (simp add: primeiro_dia_eq)
  have b: "ultimo_dia ano < MAXORDINAL"
    using days_before_year_max[OF assms] by (simp add: ultimo_dia_eq)
  have j: "py_date ano 1 1 = Inr (primeiro_dia ano)"
    using assms by (simp add: py_date_jan1 primeiro_dia_eq)
  have d: "py_date ano 12 31 = Inr (ultimo_dia ano)"
    using assms by (simp add: py_date_dez31 ultimo_dia_eq)
  show ?thesis
    using calcular_loop_exato[OF a b refl, of "[]" "[]" "[]"]
    by (simp add: calcular_datas_ano_def j d)
qed

text \<open>
  C9, as amended. \<open>_calcular_datas_ano\<close> never changes the state it runs in. For every
  year from 1 to 9998, leap years included, it returns the three lists under the keys
  domingo, quarta and sabado, each in strictly ascending order and holding exactly the
  dates from January 1 to December 31 of the year whose weekday is the one
  \<open>MAPA_DIAS_SEMANA\<close> gives the key, so no date of another weekday is in any list.
\<close>

theorem calcular_datas_ano_correto:
  "snd (calcular_datas_ano ano s) = s \<and>
   (1 \<le> ano \<and> ano \<le> 9998 \<longrightarrow>
    (\<exists>domingos quartas sabados.
       calcular_datas_ano ano s =
         (Inr [(''domingo'', domingos), (''quarta'', quartas), (''sabado'', sabados)], s)
     \<and> sorted_wrt (<) domingos \<and> sorted_wrt (<) quartas \<and> sorted_wrt (<) sabados
     \<and> set domingos = {d. primeiro_dia ano \<le> d \<and> d \<le> ultimo_dia ano
                          \<and> MAPA_DIAS_SEMANA ''domingo'' = Some (weekday d)}
     \<and> set quartas = {d. primeiro_dia ano \<le> d \<and> d \<le> ultimo_dia ano
                         \<and> MAPA_DIAS_SEMANA ''quarta'' = Some (weekday d)}
     \<and> set sabados = {d. primeiro_dia ano \<le> d \<and> d \<le> ultimo_dia ano
                         \<and> MAPA_DIAS_SEMANA ''sabado'' = Some (weekday d)}))"
proof
  show "snd (calcular_datas_ano ano s) = s"
    by (simp add: calcular_datas_ano_def split: sum.splits)
  show "1 \<le> ano \<and> ano \<le> 9998 \<longrightarrow>
    (\<exists>domingos quartas sabados.
       calcular_datas_ano ano s =
         (Inr [(''domingo'', domingos), (''quarta'', quartas), (''sabado'', sabados)], s)
     \<and> sorted_wrt (<) domingos \<and> sorted_wrt (<) quartas \<and> sorted_wrt (<) sabados
     \<and> set domingos = {d. primeiro_dia ano \<le> d \<and> d \<le> ultimo_dia ano
                          \<and> MAPA_DIAS_SEMANA ''domingo'' = Some (weekday d)}
     \<and> set quartas = {d. primeiro_dia ano \<le> d \<and> d \<le> ultimo_dia ano
                         \<and> MAPA_DIAS_SEMANA ''quarta'' = Some (weekday d)}
     \<and> set sabados = {d. primeiro_dia ano \<le> d \<and> d \<le> ultimo_dia ano
                         \<and> MAPA_DIAS_SEMANA ''sabado'' = Some (weekday d)})"
  proof
    assume a: "1 \<le> ano \<and> ano \<le> 9998"
    let ?f = "\<lambda>w. filter (\<lambda>d. weekday d = w) [primeiro_dia ano..ultimo_dia ano]"
    have e: "calcular_datas_ano ano s =
         (Inr [(''domingo'', ?f 6), (''quarta'', ?f 2), (''sabado'', ?f 5)], s)"
      using a by (simp add: calcular_datas_ano_exato)
    show "\<exists>domingos quartas sabados.
       calcular_datas_ano ano s =
         (Inr [(''domingo'', domingos), (''quarta'', quartas), (''sabado'', sabados)], s)
     \<and> sorted_wrt (<) domingos \<and> sorted_wrt (<) quartas \<and> sorted_wrt (<) sabados
     \<and> set domingos = {d. primeiro_dia ano \<le> d \<and> d \<le> ultimo_dia ano
                          \<and> MAPA_DIAS_SEMANA ''domingo'' = Some (weekday d)}
     \<and> set quartas = {d. primeiro_dia ano \<le> d \<and> d \<le> ultimo_dia ano
                         \<and> MAPA_DIAS_SEMANA ''quarta'' = Some (weekday d)}
     \<and> set sabados = {d. primeiro_dia ano \<le> d \<and> d \<le> ultimo_dia ano
                         \<and> MAPA_DIAS_SEMANA ''sabado'' = Some (weekday d)}"
      apply (rule exI[of _ "?f 6"], rule exI[of _ "?f 2"], rule exI[of _ "?f 5"])
      unfolding e
      by (auto simp: MAPA_DIAS_SEMANA_def sorted_wrt_filter)
  qed
qed

theorem calcular_datas_ano_correto_witness:
  "(1::int) \<le> 2026 \<and> (2026::int) \<le> 9998 \<and>
    (\<exists>domingos quartas sabados.
       calcular_datas_ano 2026 (\<lparr>lista_diaconos = [''A''], escala_gerada = [], chaves_usadas = [],
        chave_semanal = Map.empty\<rparr>, \<lparr>draws = (\<lambda>_. 0), cursor = 0\<rparr>) =
         (Inr [(''domingo'', domingos), (''quarta'', quartas), (''sabado'', sabados)],
          (\<lparr>lista_diaconos = [''A''], escala_gerada = [], chaves_usadas = [],
        chave_semanal = Map.empty\<rparr>, \<lparr>draws = (\<lambda>_. 0), cursor = 0\<rparr>))
     \<and> sorted_wrt (<) domingos \<and> sorted_wrt (<) quartas \<and> sorted_wrt (<) sabados
     \<and> set domingos = {d. primeiro_dia 2026 \<le> d \<and> d \<le> ultimo_dia 2026
                          \<and> MAPA_DIAS_SEMANA ''domingo'' = Some (weekday d)}
     \<and> set quartas = {d. primeiro_dia 2026 \<le> d \<and> d \<le> ultimo_dia 2026
                         \<and> MAPA_DIAS_SEMANA ''quarta'' = Some (weekday d)}
     \<and> set sabados = {d. primeiro_dia 2026 \<le> d \<and> d \<le> ultimo_dia 2026
                         \<and> MAPA_DIAS_SEMANA ''sabado'' = Some (weekday d)})"
  using calcular_datas_ano_correto [of 2026 "(\<lparr>lista_diaconos = [''A''], escala_gerada = [], chaves_usadas = [],
        chave_semanal = Map.empty\<rparr>, \<lparr>draws = (\<lambda>_. 0), cursor = 0\<rparr>)"]
  by simp

text \<open>
  C9, as stated for every year, fails at the ends of the range of \<open>date\<close>: for 9999
  the loop steps past December 31, 9999, the last date there is, and the addition raises
  OverflowError; for the year 0, as for every year below 1 or above 9999 that fits a C
  \<open>int\<close>, the constructor of \<open>date\<close> raises ValueError.
\<close>

theorem calcular_datas_ano_fora_do_intervalo_counterexample:
  "fst (calcular_datas_ano 9999
     (\<lparr>lista_diaconos = [''A''], escala_gerada = [], chaves_usadas = [],
        chave_semanal = Map.empty\<rparr>, \<lparr>draws = (\<lambda>_. 0), cursor = 0\<rparr>))
     = Inl OverflowError_date_out_of_range \<and>
   fst (calcular_datas_ano 0
     (\<lparr>lista_diaconos = [''A''], escala_gerada = [], chaves_usadas = [],
        chave_semanal = Map.empty\<rparr>, \<lparr>draws = (\<lambda>_. 0), cursor = 0\<rparr>))
     = Inl ValueError_date_out_of_range"
proof -
  have u: "ultimo_dia 9999 = MAXORDINAL"
    using days_before_year_9999 is_leap_9999 by (simp add: ultimo_dia_eq)
  have p: "0 \<le> primeiro_dia 9999" "primeiro_dia 9999 \<le> MAXORDINAL"
    by (simp_all add: primeiro_dia_eq days_before_year_def MAXORDINAL_def)
  have j: "py_date 9999 1 1 = Inr (primeiro_dia 9999)"
    by (simp add: py_date_jan1 primeiro_dia_eq)
  have d: "py_date 9999 12 31 = Inr MAXORDINAL"
    using u by (simp add: py_date_dez31 ultimo_dia_eq)
  have z: "py_date 0 1 1 = Inl ValueError_date_out_of_range"
    by (simp add: py_date_def INT_MIN_def INT_MAX_def MINYEAR_def)
  show ?thesis
    using calcular_loop_overflow[OF p refl, of "[]" "[]" "[]"]
    by (simp add: calcular_datas_ano_def j d z)
qed

section \<open>Annual generation: what a year's schedule holds\<close>

lemma pick_frame:
  "obter_proximo_chave_circular (gen, g) = (r, (gen', g')) \<Longrightarrow>
   escala_gerada gen' = escala_gerada gen \<and> chave_semanal gen' = chave_semanal gen
   \<and> lista_diaconos gen' = lista_diaconos gen"
  by (auto simp: obter_proximo_chave_circular_def Let_def split: prod.splits sum.splits if_splits)

lemma ofertas_anual_frame:
  "sortear_ofertas_anual n d (gen, g) = (r, (gen', g')) \<Longrightarrow>
   chave_semanal gen' = chave_semanal gen \<and> lista_diaconos gen' = lista_diaconos gen
   \<and> (\<exists>novos. escala_gerada gen' = escala_gerada gen @ novos
        \<and> (\<forall>a \<in> set novos. funcao a = ''oferta'' \<and> dia a = ''sabado'' \<and> data a = Some d)
        \<and> (r = Inr () \<longrightarrow> length novos = n))"
proof (induction n arbitrary: gen g)
  case 0
  then show ?case by simp
next
  case (Suc n)
  show ?case
  proof (cases "sortear_diacono (lista_diaconos gen) g")
    case (Pair res g1)
    show ?thesis
    proof (cases res)
      case (Inl e)
      with Pair Suc.prems show ?thesis by auto
    next
      case (Inr x)
      let ?gen1 = "gen\<lparr>escala_gerada := escala_gerada gen @
                [\<lparr>nome = x, funcao = ''oferta'', dia = ''sabado'', data = Some d\<rparr>]\<rparr>"
      from Pair Inr Suc.prems have
        "sortear_ofertas_anual n d (?gen1, g1) = (r, (gen', g'))" by simp
      from Suc.IH[OF this] obtain novos where
        f: "chave_semanal gen' = chave_semanal gen" "lista_diaconos gen' = lista_diaconos gen"
           "escala_gerada gen' = escala_gerada ?gen1 @ novos"
           "\<forall>a \<in> set novos. funcao a = ''oferta'' \<and> dia a = ''sabado'' \<and> data a = Some d"
           "r = Inr () \<longrightarrow> length novos = n"
        by auto
      show ?thesis
        using f(1,2)
        apply (intro conjI)
        apply simp
        apply simp
        apply (rule exI[of _ "\<lparr>nome = x, funcao = ''oferta'', dia = ''sabado'', data = Some d\<rparr> # novos"])
        using f(3,4,5) by simp
    qed
  qed
qed

lemma ofertas_anual_ok:
  "lista_diaconos gen \<noteq> [] \<Longrightarrow> \<exists>gen' g'. sortear_ofertas_anual n d (gen, g) = (Inr (), (gen', g'))"
proof (induction n arbitrary: gen g)
  case 0
  then show ?case by simp
next
  case (Suc n)
  have "\<exists>x g1. sortear_diacono (lista_diaconos gen) g = (Inr x, g1)"
    using Suc.prems by (simp add: sortear_diacono_def random_choice_def)
  then obtain x g1 where x: "sortear_diacono (lista_diaconos gen) g = (Inr x, g1)" by blast
  show ?case using x Suc.IH[of "gen\<lparr>escala_gerada := escala_gerada gen @
                [\<lparr>nome = x, funcao = ''oferta'', dia = ''sabado'', data = Some d\<rparr>]\<rparr>" g1] Suc.prems
    by simp
qed

lemma sabado_anual_frame:
  assumes "adicionar_escala_sabado_anual d (gen, g) = (r, (gen', g'))"
  shows "lista_diaconos gen' = lista_diaconos gen"
    and "\<exists>novos. escala_gerada gen' = escala_gerada gen @ novos
        \<and> (\<forall>a \<in> set novos. dia a = ''sabado'' \<and> data a = Some d
               \<and> (funcao a = ''chave'' \<or> funcao a = ''oferta''))"
    and "r = Inr () \<Longrightarrow> \<exists>x y z. escala_gerada gen' = escala_gerada gen @
           [\<lparr>nome = x, funcao = ''chave'', dia = ''sabado'', data = Some d\<rparr>,
            \<lparr>nome = y, funcao = ''oferta'', dia = ''sabado'', data = Some d\<rparr>,
            \<lparr>nome = z, funcao = ''oferta'', dia = ''sabado'', data = Some d\<rparr>]
         \<and> chave_semanal gen' = (chave_semanal gen)(d \<mapsto> x)"
proof -
  obtain res gen1 g1 where p: "obter_proximo_chave_circular (gen, g) = (res, (gen1, g1))"
    by (metis prod.exhaust)
  note pf = pick_frame[OF p]
  show "lista_diaconos gen' = lista_diaconos gen"
   and "\<exists>novos. escala_gerada gen' = escala_gerada gen @ novos
        \<and> (\<forall>a \<in> set novos. dia a = ''sabado'' \<and> data a = Some d
               \<and> (funcao a = ''chave'' \<or> funcao a = ''oferta''))"
   and "r = Inr () \<Longrightarrow> \<exists>x y z. escala_gerada gen' = escala_gerada gen @
           [\<lparr>nome = x, funcao = ''chave'', dia = ''sabado'', data = Some d\<rparr>,
            \<lparr>nome = y, funcao = ''oferta'', dia = ''sabado'', data = Some d\<rparr>,
            \<lparr>nome = z, funcao = ''oferta'', dia = ''sabado'', data = Some d\<rparr>]
         \<and> chave_semanal gen' = (chave_semanal gen)(d \<mapsto> x)"
  proof (atomize (full), cases res)
    case (Inl e)
    with p assms pf show "lista_diaconos gen' = lista_diaconos gen \<and>
      (\<exists>novos. escala_gerada gen' = escala_gerada gen @ novos
        \<and> (\<forall>a \<in> set novos. dia a = ''sabado'' \<and> data a = Some d
               \<and> (funcao a = ''chave'' \<or> funcao a = ''oferta''))) \<and>
      (r = Inr () \<longrightarrow> (\<exists>x y z. escala_gerada gen' = escala_gerada gen @
           [\<lparr>nome = x, funcao = ''chave'', dia = ''sabado'', data = Some d\<rparr>,
            \<lparr>nome = y, funcao = ''oferta'', dia = ''sabado'', data = Some d\<rparr>,
            \<lparr>nome = z, funcao = ''oferta'', dia = ''sabado'', data = Some d\<rparr>]
         \<and> chave_semanal gen' = (chave_semanal gen)(d \<mapsto> x)))"
      by (auto simp: adicionar_escala_sabado_anual_def)
  next
    case (Inr x)
    let ?c = "\<lparr>nome = x, funcao = ''chave'', dia = ''sabado'', data = Some d\<rparr>"
    let ?gen2 = "gen1\<lparr>chave_semanal := (chave_semanal gen1)(d \<mapsto> x),
                 escala_gerada := escala_gerada gen1 @ [?c]\<rparr>"
    from p Inr assms have o: "sortear_ofertas_anual 2 d (?gen2, g1) = (r, (gen', g'))"
      by (simp add: adicionar_escala_sabado_anual_def)
    from ofertas_anual_frame[OF o] obtain novos where
      f: "chave_semanal gen' = chave_semanal ?gen2" "lista_diaconos gen' = lista_diaconos ?gen2"
         "escala_gerada gen' = escala_gerada ?gen2 @ novos"
         "\<forall>a \<in> set novos. funcao a = ''oferta'' \<and> dia a = ''sabado'' \<and> data a = Some d"
         "r = Inr () \<longrightarrow> length novos = 2"
      by blast
    have g1: "\<exists>novos'. escala_gerada gen' = escala_gerada gen @ novos'
        \<and> (\<forall>a \<in> set novos'. dia a = ''sabado'' \<and> data a = Some d
               \<and> (funcao a = ''chave'' \<or> funcao a = ''oferta''))"
      apply (rule exI[of _ "?c # novos"])
      using f(3,4) pf by simp
    have g2: "r = Inr () \<longrightarrow> (\<exists>x y z. escala_gerada gen' = escala_gerada gen @
           [\<lparr>nome = x, funcao = ''chave'', dia = ''sabado'', data = Some d\<rparr>,
            \<lparr>nome = y, funcao = ''oferta'', dia = ''sabado'', data = Some d\<rparr>,
            \<lparr>nome = z, funcao = ''oferta'', dia = ''sabado'', data = Some d\<rparr>]
         \<and> chave_semanal gen' = (chave_semanal gen)(d \<mapsto> x))"
    proof
      assume "r = Inr ()"
      with f(5) have "length novos = 2" by simp
      then obtain a b where ab: "novos = [a, b]"
        by (auto simp: length_Suc_conv numeral_2_eq_2)
      with f(4) have
        "a = \<lparr>nome = nome a, funcao = ''oferta'', dia = ''sabado'', data = Some d\<rparr>"
        "b = \<lparr>nome = nome b, funcao = ''oferta'', dia = ''sabado'', data = Some d\<rparr>"
        by simp_all
      note rec = this
      show "\<exists>x y z. escala_gerada gen' = escala_gerada gen @
           [\<lparr>nome = x, funcao = ''chave'', dia = ''sabado'', data = Some d\<rparr>,
            \<lparr>nome = y, funcao = ''oferta'', dia = ''sabado'', data = Some d\<rparr>,
            \<lparr>nome = z, funcao = ''oferta'', dia = ''sabado'', data = Some d\<rparr>]
         \<and> chave_semanal gen' = (chave_semanal gen)(d \<mapsto> x)"
        apply (rule exI[of _ x], rule exI[of _ "nome a"], rule exI[of _ "nome b"])
        using f(1,3) pf ab rec by simp
    qed
    show "lista_diaconos gen' = lista_diaconos gen \<and>
      (\<exists>novos. escala_gerada gen' = escala_gerada gen @ novos
        \<and> (\<forall>a \<in> set novos. dia a = ''sabado'' \<and> data a = Some d
               \<and> (funcao a = ''chave'' \<or> funcao a = ''oferta''))) \<and>
      (r = Inr () \<longrightarrow> (\<exists>x y z. escala_gerada gen' = escala_gerada gen @
           [\<lparr>nome = x, funcao = ''chave'', dia = ''sabado'', data = Some d\<rparr>,
            \<lparr>nome = y, funcao = ''oferta'', dia = ''sabado'', data = Some d\<rparr>,
            \<lparr>nome = z, funcao = ''oferta'', dia = ''sabado'', data = Some d\<rparr>]
         \<and> chave_semanal gen' = (chave_semanal gen)(d \<mapsto> x)))"
      using g1 g2 f(2) pf by simp
  qed
qed

lemma sabado_anual_ok:
  assumes "lista_diaconos gen \<noteq> []"
  shows "\<exists>gen' g'. adicionar_escala_sabado_anual d (gen, g) = (Inr (), (gen', g'))"
proof -
  from pick_char[OF assms, of g] obtain x gen1 g1 where
    p: "obter_proximo_chave_circular (gen, g) = (Inr x, (gen1, g1))" by blast
  from pick_frame[OF p] assms have ne: "lista_diaconos gen1 \<noteq> []" by simp
  let ?gen2 = "gen1\<lparr>chave_semanal := (chave_semanal gen1)(d \<mapsto> x),
                 escala_gerada := escala_gerada gen1 @
                   [\<lparr>nome = x, funcao = ''chave'', dia = ''sabado'', data = Some d\<rparr>]\<rparr>"
  from ofertas_anual_ok[of ?gen2 2 d g1] ne obtain gen' g' where
    "sortear_ofertas_anual 2 d (?gen2, g1) = (Inr (), (gen', g'))" by auto
  with p show ?thesis by (simp add: adicionar_escala_sabado_anual_def)
qed

lemma encontrar_sabado_domingo:
  "weekday d = 6 \<Longrightarrow> 1 < d \<Longrightarrow> d \<le> MAXORDINAL \<Longrightarrow> encontrar_sabado_semana d = Inr (Some (d - 1))"
  by (simp add: encontrar_sabado_semana_def date_add_def)

lemma encontrar_sabado_quarta:
  "weekday d = 2 \<Longrightarrow> 4 < d \<Longrightarrow> d \<le> MAXORDINAL \<Longrightarrow> encontrar_sabado_semana d = Inr (Some (d - 4))"
  by (simp add: encontrar_sabado_semana_def date_add_def)

lemma encontrar_sabado_ok:
  "4 < d \<Longrightarrow> d \<le> MAXORDINAL \<Longrightarrow> \<exists>r. encontrar_sabado_semana d = Inr r"
  by (auto simp: encontrar_sabado_semana_def date_add_def Let_def)

lemma dia_anual_ok:
  assumes "lista_diaconos gen \<noteq> []" "4 < d" "d \<le> MAXORDINAL"
  shows "\<exists>gen' g'. adicionar_escala_dia_anual k d (gen, g) = (Inr (), (gen', g'))"
proof -
  from encontrar_sabado_ok[OF assms(2,3)] obtain sab where
    e: "encontrar_sabado_semana d = Inr sab" by blast
  from pick_char[OF assms(1), of g] obtain x gen1 g1 where
    p: "obter_proximo_chave_circular (gen, g) = (Inr x, (gen1, g1))" by blast
  show ?thesis using e p
    by (auto simp: adicionar_escala_dia_anual_def split: option.splits)
qed

lemma dia_anual_frame:
  assumes "adicionar_escala_dia_anual k d (gen, g) = (r, (gen', g'))"
  shows "lista_diaconos gen' = lista_diaconos gen"
    and "chave_semanal gen' = chave_semanal gen"
    and "\<exists>novos. escala_gerada gen' = escala_gerada gen @ novos
        \<and> (\<forall>a \<in> set novos. funcao a = ''chave'' \<and> dia a = k \<and> data a = Some d)"
    and "r = Inr () \<Longrightarrow> \<exists>x. escala_gerada gen' = escala_gerada gen @
           [\<lparr>nome = x, funcao = ''chave'', dia = k, data = Some d\<rparr>]
         \<and> (\<forall>sab n. encontrar_sabado_semana d = Inr (Some sab) \<longrightarrow>
               chave_semanal gen sab = Some n \<longrightarrow> x = n)"
proof -
  obtain res gen1 g1 where p: "obter_proximo_chave_circular (gen, g) = (res, (gen1, g1))"
    by (metis prod.exhaust)
  note pf = pick_frame[OF p]
  show "lista_diaconos gen' = lista_diaconos gen"
    using assms p pf
    by (auto simp: adicionar_escala_dia_anual_def split: sum.splits option.splits prod.splits)
  show "chave_semanal gen' = chave_semanal gen"
    using assms p pf
    by (auto simp: adicionar_escala_dia_anual_def split: sum.splits option.splits prod.splits)
  show "\<exists>novos. escala_gerada gen' = escala_gerada gen @ novos
        \<and> (\<forall>a \<in> set novos. funcao a = ''chave'' \<and> dia a = k \<and> data a = Some d)"
    using assms p pf
    by (auto simp: adicionar_escala_dia_anual_def split: sum.splits option.splits prod.splits)
  show "r = Inr () \<Longrightarrow> \<exists>x. escala_gerada gen' = escala_gerada gen @
           [\<lparr>nome = x, funcao = ''chave'', dia = k, data = Some d\<rparr>]
         \<and> (\<forall>sab n. encontrar_sabado_semana d = Inr (Some sab) \<longrightarrow>
               chave_semanal gen sab = Some n \<longrightarrow> x = n)"
    using assms p pf
    by (auto simp: adicionar_escala_dia_anual_def split: sum.splits option.splits prod.splits)
qed

lemma todas_datas_de_props:
  fixes a b :: int
  defines "D \<equiv> filter (\<lambda>d. weekday d = 6) [a..b]"
    and "Q \<equiv> filter (\<lambda>d. weekday d = 2) [a..b]"
    and "S \<equiv> filter (\<lambda>d. weekday d = 5) [a..b]"
  defines "tds \<equiv> todas_datas_de [(''domingo'', D), (''quarta'', Q), (''sabado'', S)]"
  shows "set tds = {(d, k). a \<le> d \<and> d \<le> b \<and>
            (weekday d = 6 \<and> k = ''domingo'' \<or> weekday d = 2 \<and> k = ''quarta''
             \<or> weekday d = 5 \<and> k = ''sabado'')}"
    and "sorted_wrt (<) (map fst tds)"
proof -
  let ?xs = "map (\<lambda>d. (d, ''domingo'')) D @ map (\<lambda>d. (d, ''quarta'')) Q @ map (\<lambda>d. (d, ''sabado'')) S"
  have t: "tds = sort_key fst ?xs" by (simp add: tds_def todas_datas_de_def)
  show "set tds = {(d, k). a \<le> d \<and> d \<le> b \<and>
            (weekday d = 6 \<and> k = ''domingo'' \<or> weekday d = 2 \<and> k = ''quarta''
             \<or> weekday d = 5 \<and> k = ''sabado'')}"
    unfolding t by (auto simp: D_def Q_def S_def)
  have m: "map fst ?xs = D @ Q @ S" by (simp add: comp_def)
  have dd: "distinct (D @ Q @ S)" by (auto simp: D_def Q_def S_def)
  have "mset tds = mset ?xs" unfolding t by (rule mset_sort)
  then have "mset (map fst tds) = mset (map fst ?xs)" by (simp only: mset_map)
  then have "distinct (map fst tds) = distinct (map fst ?xs)"
    by (rule mset_eq_imp_distinct_iff)
  with m dd have "distinct (map fst tds)" by simp
  moreover have "sorted (map fst tds)" unfolding t by (rule sorted_sort_key)
  ultimately show "sorted_wrt (<) (map fst tds)" by (simp add: strict_sorted_iff)
qed

lemma passo_frame:
  assumes "(if k = ''sabado'' then adicionar_escala_sabado_anual d (gen, g)
            else adicionar_escala_dia_anual k d (gen, g)) = (r, (gen', g'))"
  shows "lista_diaconos gen' = lista_diaconos gen"
    and "\<exists>novos. escala_gerada gen' = escala_gerada gen @ novos
        \<and> (\<forall>a \<in> set novos. data a = Some d
              \<and> (funcao a = ''chave'' \<and> dia a = k
                  \<or> funcao a = ''oferta'' \<and> dia a = ''sabado'' \<and> k = ''sabado''))
        \<and> (r = Inr () \<longrightarrow> map forma novos = bloco (d, k))"
proof -
  show "lista_diaconos gen' = lista_diaconos gen"
    using assms sabado_anual_frame(1)[of d gen g r gen' g'] dia_anual_frame(1)[of k d gen g r gen' g']
    by (simp split: if_splits)
  show "\<exists>novos. escala_gerada gen' = escala_gerada gen @ novos
        \<and> (\<forall>a \<in> set novos. data a = Some d
              \<and> (funcao a = ''chave'' \<and> dia a = k
                  \<or> funcao a = ''oferta'' \<and> dia a = ''sabado'' \<and> k = ''sabado''))
        \<and> (r = Inr () \<longrightarrow> map forma novos = bloco (d, k))"
  proof (cases "k = ''sabado''")
    case True
    with assms have s: "adicionar_escala_sabado_anual d (gen, g) = (r, (gen', g'))" by simp
    from sabado_anual_frame(2)[OF s] obtain novos where
      n: "escala_gerada gen' = escala_gerada gen @ novos"
         "\<forall>a \<in> set novos. dia a = ''sabado'' \<and> data a = Some d
               \<and> (funcao a = ''chave'' \<or> funcao a = ''oferta'')" by blast
    have "r = Inr () \<longrightarrow> map forma novos = bloco (d, k)"
    proof
      assume "r = Inr ()"
      from sabado_anual_frame(3)[OF s this] n(1) True show "map forma novos = bloco (d, k)"
        by (auto simp: forma_def bloco_def)
    qed
    with n True show ?thesis by auto
  next
    case False
    with assms have s: "adicionar_escala_dia_anual k d (gen, g) = (r, (gen', g'))" by simp
    from dia_anual_frame(3)[OF s] obtain novos where
      n: "escala_gerada gen' = escala_gerada gen @ novos"
         "\<forall>a \<in> set novos. funcao a = ''chave'' \<and> dia a = k \<and> data a = Some d" by blast
    have "r = Inr () \<longrightarrow> map forma novos = bloco (d, k)"
    proof
      assume "r = Inr ()"
      from dia_anual_frame(4)[OF s this] n(1) False show "map forma novos = bloco (d, k)"
        by (auto simp: forma_def bloco_def)
    qed
    with n False show ?thesis by auto
  qed
qed

lemma processar_frame:
  "processar_datas tds (gen, g) = (r, (gen', g')) \<Longrightarrow>
   lista_diaconos gen' = lista_diaconos gen
   \<and> (\<exists>novos. escala_gerada gen' = escala_gerada gen @ novos
        \<and> (\<forall>a \<in> set novos. \<exists>(d, k) \<in> set tds. data a = Some d
              \<and> (funcao a = ''chave'' \<and> dia a = k
                  \<or> funcao a = ''oferta'' \<and> dia a = ''sabado'' \<and> k = ''sabado''))
        \<and> (r = Inr () \<longrightarrow> map forma novos = concat (map bloco tds)))"
proof (induction tds arbitrary: gen g)
  case Nil
  then show ?case by simp
next
  case (Cons p tds)
  obtain d k where p: "p = (d, k)" by (cases p)
  obtain r1 gen1 g1 where
    s: "(if k = ''sabado'' then adicionar_escala_sabado_anual d (gen, g)
            else adicionar_escala_dia_anual k d (gen, g)) = (r1, (gen1, g1))"
    by (metis prod.exhaust)
  from passo_frame[OF s] obtain n1 where
    f: "lista_diaconos gen1 = lista_diaconos gen" "escala_gerada gen1 = escala_gerada gen @ n1"
       "\<forall>a \<in> set n1. data a = Some d
              \<and> (funcao a = ''chave'' \<and> dia a = k
                  \<or> funcao a = ''oferta'' \<and> dia a = ''sabado'' \<and> k = ''sabado'')"
       "r1 = Inr () \<longrightarrow> map forma n1 = bloco (d, k)"
    by blast
  show ?case
  proof (cases r1)
    case (Inl e)
    with s Cons.prems p have "r = Inl e" "gen' = gen1" by (auto split: if_splits)
    with f p show ?thesis
      apply (intro conjI)
       apply simp
      apply (rule exI[of _ n1])
      by auto
  next
    case (Inr u)
    with s Cons.prems p have "processar_datas tds (gen1, g1) = (r, (gen', g'))"
      by (auto split: if_splits)
    from Cons.IH[OF this] obtain n2 where
      h: "lista_diaconos gen' = lista_diaconos gen1" "escala_gerada gen' = escala_gerada gen1 @ n2"
         "\<forall>a \<in> set n2. \<exists>(d, k) \<in> set tds. data a = Some d
              \<and> (funcao a = ''chave'' \<and> dia a = k
                  \<or> funcao a = ''oferta'' \<and> dia a = ''sabado'' \<and> k = ''sabado'')"
         "r = Inr () \<longrightarrow> map forma n2 = concat (map bloco tds)"
      by blast
    from Inr f(4) have b: "map forma n1 = bloco (d, k)" by simp
    show ?thesis
      apply (intro conjI)
       apply (simp add: h(1) f(1))
      apply (rule exI[of _ "n1 @ n2"])
      using f(2,3) h(2,3,4) b p by auto
  qed
qed

lemma processar_ok:
  "lista_diaconos gen \<noteq> [] \<Longrightarrow> \<forall>(d, k) \<in> set tds. 4 < d \<and> d \<le> MAXORDINAL \<Longrightarrow>
   \<exists>gen' g'. processar_datas tds (gen, g) = (Inr (), (gen', g'))"
proof (induction tds arbitrary: gen g)
  case Nil
  then show ?case by simp
next
  case (Cons p tds)
  obtain d k where p: "p = (d, k)" by (cases p)
  from Cons.prems(2) p have dk: "4 < d" "d \<le> MAXORDINAL" by auto
  have "\<exists>gen1 g1. (if k = ''sabado'' then adicionar_escala_sabado_anual d (gen, g)
            else adicionar_escala_dia_anual k d (gen, g)) = (Inr (), (gen1, g1))"
    using sabado_anual_ok[OF Cons.prems(1), of d g] dia_anual_ok[OF Cons.prems(1) dk, of k g]
    by simp
  then obtain gen1 g1 where
    s: "(if k = ''sabado'' then adicionar_escala_sabado_anual d (gen, g)
            else adicionar_escala_dia_anual k d (gen, g)) = (Inr (), (gen1, g1))" by blast
  from passo_frame(1)[OF s] Cons.prems(1) have ne: "lista_diaconos gen1 \<noteq> []" by simp
  from Cons.IH[OF ne, of g1] Cons.prems(2) obtain gen' g' where
    "processar_datas tds (gen1, g1) = (Inr (), (gen', g'))" by auto
  with s p show ?case by (auto split: if_splits)
qed

lemma datas_do_ano_set:
  "set (datas_do_ano ano) = {(d, k). primeiro_dia ano \<le> d \<and> d \<le> ultimo_dia ano \<and>
            (weekday d = 6 \<and> k = ''domingo'' \<or> weekday d = 2 \<and> k = ''quarta''
             \<or> weekday d = 5 \<and> k = ''sabado'')}"
  unfolding datas_do_ano_def by (rule todas_datas_de_props(1))

lemma datas_do_ano_sorted: "sorted_wrt (<) (map fst (datas_do_ano ano))"
  unfolding datas_do_ano_def by (rule todas_datas_de_props(2))

lemma calcular_datas_ano_Inr:
  assumes "calcular_datas_ano ano s = (Inr datas, s1)"
  shows "1 \<le> ano \<and> ano \<le> 9998"
proof (rule ccontr)
  assume n: "\<not> (1 \<le> ano \<and> ano \<le> 9998)"
  show False
  proof (cases "ano = 9999")
    case True
    have u: "ultimo_dia 9999 = MAXORDINAL"
      using days_before_year_9999 is_leap_9999 by (simp add: ultimo_dia_eq)
    have p: "0 \<le> primeiro_dia 9999" "primeiro_dia 9999 \<le> MAXORDINAL"
      by (simp_all add: primeiro_dia_eq days_before_year_def MAXORDINAL_def)
    have j: "py_date 9999 1 1 = Inr (primeiro_dia 9999)"
      by (simp add: py_date_jan1 primeiro_dia_eq)
    have d: "py_date 9999 12 31 = Inr MAXORDINAL"
      using u by (simp add: py_date_dez31 ultimo_dia_eq)
    show False
      using assms calcular_loop_overflow[OF p refl, of "[]" "[]" "[]"] True
      by (simp add: calcular_datas_ano_def j d)
  next
    case False
    with n have "ano < 1 \<or> 9999 < ano" by linarith
    from py_date_fora[OF this, of 1 1] obtain e where "py_date ano 1 1 = Inl e" by blast
    then show False using assms by (simp add: calcular_datas_ano_def)
  qed
qed

lemma gerar_anual_no_intervalo:
  assumes "1 \<le> ano" "ano \<le> 9998"
  shows "gerar_escala_anual ano (gen, g) =
     (case processar_datas (datas_do_ano ano)
             (gen\<lparr>escala_gerada := [], chaves_usadas := [], chave_semanal := Map.empty\<rparr>, g) of
        (Inl e, s2) \<Rightarrow> (Inl e, s2)
      | (Inr _, s2) \<Rightarrow> (Inr (escala_gerada (fst s2)), s2))"
  by (simp add: gerar_escala_anual_def calcular_datas_ano_exato[OF assms] datas_do_ano_def)

lemma gerar_anual_fora:
  assumes "\<not> (1 \<le> ano \<and> ano \<le> 9998)"
  shows "\<exists>e. gerar_escala_anual ano (gen, g) =
     (Inl e, (gen\<lparr>escala_gerada := [], chaves_usadas := [], chave_semanal := Map.empty\<rparr>, g))"
proof -
  let ?s0 = "(gen\<lparr>escala_gerada := [], chaves_usadas := [], chave_semanal := Map.empty\<rparr>, g)"
  obtain r s1 where c: "calcular_datas_ano ano ?s0 = (r, s1)" by (metis prod.exhaust)
  have s1: "s1 = ?s0" using c calcular_datas_ano_puro[of ano ?s0] by simp
  show ?thesis
  proof (cases r)
    case (Inl e)
    with c s1 show ?thesis by (simp add: gerar_escala_anual_def)
  next
    case (Inr datas)
    with c calcular_datas_ano_Inr assms show ?thesis by blast
  qed
qed

lemma gerar_anual_Inr:
  assumes "gerar_escala_anual ano (gen, g) = (Inr esc, s')"
  shows "1 \<le> ano \<and> ano \<le> 9998"
    and "\<exists>gen' g'. processar_datas (datas_do_ano ano)
             (gen\<lparr>escala_gerada := [], chaves_usadas := [], chave_semanal := Map.empty\<rparr>, g)
           = (Inr (), (gen', g')) \<and> esc = escala_gerada gen' \<and> s' = (gen', g')"
proof -
  show a: "1 \<le> ano \<and> ano \<le> 9998"
    using assms gerar_anual_fora[of ano gen g] by auto
  then have a1: "1 \<le> ano" and a2: "ano \<le> 9998" by simp_all
  show "\<exists>gen' g'. processar_datas (datas_do_ano ano)
             (gen\<lparr>escala_gerada := [], chaves_usadas := [], chave_semanal := Map.empty\<rparr>, g)
           = (Inr (), (gen', g')) \<and> esc = escala_gerada gen' \<and> s' = (gen', g')"
  proof -
    obtain r gen' g' where p: "processar_datas (datas_do_ano ano)
             (gen\<lparr>escala_gerada := [], chaves_usadas := [], chave_semanal := Map.empty\<rparr>, g)
           = (r, (gen', g'))" by (metis prod.exhaust)
    from assms p show ?thesis
      unfolding gerar_anual_no_intervalo[OF a1 a2] by (cases r) auto
  qed
qed

lemma filtro_blocos_fora:
  "d \<notin> fst ` set tds \<Longrightarrow> filter (\<lambda>p. snd (snd p) = Some d) (concat (map bloco tds)) = []"
  by (induction tds) (auto simp: bloco_def)

lemma filtro_blocos:
  "distinct (map fst tds) \<Longrightarrow> (d, k) \<in> set tds \<Longrightarrow>
   filter (\<lambda>p. snd (snd p) = Some d) (concat (map bloco tds)) = bloco (d, k)"
proof (induction tds)
  case Nil
  then show ?case by simp
next
  case (Cons p tds)
  show ?case
  proof (cases "p = (d, k)")
    case True
    with Cons.prems(1) have "d \<notin> fst ` set tds" by auto
    moreover have "filter (\<lambda>p. snd (snd p) = Some d) (bloco (d, k)) = bloco (d, k)"
      by (simp add: bloco_def)
    ultimately show ?thesis using True by (simp add: filtro_blocos_fora)
  next
    case False
    with Cons.prems have m: "(d, k) \<in> set tds" "distinct (map fst tds)" by auto
    with Cons.prems(1) have "fst p \<noteq> d" by (cases p) force
    then have "filter (\<lambda>q. snd (snd q) = Some d) (bloco p) = []"
      by (cases p) (auto simp: bloco_def)
    with Cons.IH[OF m(2,1)] show ?thesis by simp
  qed
qed

lemma papeis_forma:
  "papeis_na_data esc d =
     map (\<lambda>p. (fst p, fst (snd p))) (filter (\<lambda>p. snd (snd p) = Some d) (map forma esc))"
  by (induction esc) (auto simp: papeis_na_data_def forma_def)

lemma gerar_anual_ok:
  assumes "lista_diaconos gen \<noteq> []" "2 \<le> ano" "ano \<le> 9998"
  shows "\<exists>esc s'. gerar_escala_anual ano (gen, g) = (Inr esc, s')"
proof -
  let ?gen0 = "gen\<lparr>escala_gerada := [], chaves_usadas := [], chave_semanal := Map.empty\<rparr>"
  have a1: "1 \<le> ano" using assms(2) by simp
  have lo: "4 < primeiro_dia ano"
    using days_before_year_ge2[OF assms(2)] by (simp add: primeiro_dia_eq)
  have hi: "ultimo_dia ano \<le> MAXORDINAL"
    using days_before_year_max[OF a1 assms(3)] by (simp add: ultimo_dia_eq)
  have "\<forall>(d, k) \<in> set (datas_do_ano ano). 4 < d \<and> d \<le> MAXORDINAL"
    using lo hi by (auto simp: datas_do_ano_set)
  from processar_ok[of ?gen0 "datas_do_ano ano" g, OF _ this] assms(1) obtain gen' g' where
    "processar_datas (datas_do_ano ano) (?gen0, g) = (Inr (), (gen', g'))" by auto
  then show ?thesis by (simp add: gerar_anual_no_intervalo[OF a1 assms(3)])
qed

lemma gerar_anual_papeis:
  assumes "gerar_escala_anual ano (gen, g) = (Inr esc, s')" "(d, k) \<in> set (datas_do_ano ano)"
  shows "papeis_na_data esc d = map (\<lambda>p. (fst p, fst (snd p))) (bloco (d, k))"
proof -
  let ?gen0 = "gen\<lparr>escala_gerada := [], chaves_usadas := [], chave_semanal := Map.empty\<rparr>"
  from gerar_anual_Inr(2)[OF assms(1)] obtain gen' g' where
    p: "processar_datas (datas_do_ano ano) (?gen0, g) = (Inr (), (gen', g'))"
       "esc = escala_gerada gen'" by blast
  from processar_frame[OF p(1)] have f: "map forma esc = concat (map bloco (datas_do_ano ano))"
    using p(2) by auto
  have "distinct (map fst (datas_do_ano ano))"
    using datas_do_ano_sorted[of ano] by (simp add: strict_sorted_iff)
  from filtro_blocos[OF this assms(2)] show ?thesis
    by (simp add: papeis_forma f)
qed

lemma gerar_anual_ofertas:
  assumes "gerar_escala_anual ano (gen, g) = (Inr esc, s')" "a \<in> set esc"
  shows "(funcao a = ''chave'' \<or> funcao a = ''oferta'' \<and> dia a = ''sabado'')"
proof -
  let ?gen0 = "gen\<lparr>escala_gerada := [], chaves_usadas := [], chave_semanal := Map.empty\<rparr>"
  from gerar_anual_Inr(2)[OF assms(1)] obtain gen' g' where
    p: "processar_datas (datas_do_ano ano) (?gen0, g) = (Inr (), (gen', g'))"
       "esc = escala_gerada gen'" by blast
  from processar_frame[OF p(1)] p(2) assms(2) show ?thesis by fastforce
qed

text \<open>
  C3. In every schedule \<open>gerar_escala_anual\<close> returns, each Saturday of the year has
  exactly three assignments, one with role chave followed by two with role oferta, each
  Sunday and each Wednesday has exactly one assignment, with role chave, and every
  assignment with role oferta carries the day sabado. A schedule is returned for every
  non-empty roster and every year from 2 to 9998; outside these years the dates the
  method builds leave the range of \<open>date\<close>, the call raises and returns no schedule.
\<close>

theorem gerar_escala_anual_atribuicoes:
  "(\<forall>esc s'. gerar_escala_anual ano (gen, g) = (Inr esc, s') \<longrightarrow>
      (\<forall>d. primeiro_dia ano \<le> d \<and> d \<le> ultimo_dia ano \<longrightarrow>
         (weekday d = 5 \<longrightarrow> papeis_na_data esc d =
            [(''chave'', ''sabado''), (''oferta'', ''sabado''), (''oferta'', ''sabado'')])
       \<and> (weekday d = 6 \<longrightarrow> papeis_na_data esc d = [(''chave'', ''domingo'')])
       \<and> (weekday d = 2 \<longrightarrow> papeis_na_data esc d = [(''chave'', ''quarta'')]))
    \<and> (\<forall>a \<in> set esc. funcao a = ''oferta'' \<longrightarrow> dia a = ''sabado''))
   \<and> (lista_diaconos gen \<noteq> [] \<and> 2 \<le> ano \<and> ano \<le> 9998 \<longrightarrow>
        (\<exists>esc s'. gerar_escala_anual ano (gen, g) = (Inr esc, s')))"
proof (intro conjI allI impI ballI)
  fix esc s' d
  assume r: "gerar_escala_anual ano (gen, g) = (Inr esc, s')"
    and d: "primeiro_dia ano \<le> d \<and> d \<le> ultimo_dia ano"
  {
    assume "weekday d = 5"
    with d have "(d, ''sabado'') \<in> set (datas_do_ano ano)" by (simp add: datas_do_ano_set)
    from gerar_anual_papeis[OF r this]
    show "papeis_na_data esc d =
            [(''chave'', ''sabado''), (''oferta'', ''sabado''), (''oferta'', ''sabado'')]"
      by (simp add: bloco_def)
  }
  {
    assume "weekday d = 6"
    with d have "(d, ''domingo'') \<in> set (datas_do_ano ano)" by (simp add: datas_do_ano_set)
    from gerar_anual_papeis[OF r this]
    show "papeis_na_data esc d = [(''chave'', ''domingo'')]"
      by (simp add: bloco_def)
  }
  {
    assume "weekday d = 2"
    with d have "(d, ''quarta'') \<in> set (datas_do_ano ano)" by (simp add: datas_do_ano_set)
    from gerar_anual_papeis[OF r this]
    show "papeis_na_data esc d = [(''chave'', ''quarta'')]"
      by (simp add: bloco_def)
  }
next
  fix esc s' a
  assume "gerar_escala_anual ano (gen, g) = (Inr esc, s')" "a \<in> set esc" "funcao a = ''oferta''"
  with gerar_anual_ofertas[of ano gen g esc s' a] show "dia a = ''sabado''" by simp
next
  assume "lista_diaconos gen \<noteq> [] \<and> 2 \<le> ano \<and> ano \<le> 9998"
  then show "\<exists>esc s'. gerar_escala_anual ano (gen, g) = (Inr esc, s')"
    using gerar_anual_ok[of gen ano g] by simp
qed

theorem gerar_escala_anual_atribuicoes_witness:
  "[''A'', ''B''] \<noteq> [] \<and> (2::int) \<le> 2026 \<and> (2026::int) \<le> 9998 \<and>
   primeiro_dia 2026 \<le> 739619 \<and> 739619 \<le> ultimo_dia 2026 \<and> weekday 739619 = 5 \<and>
   (\<exists>esc s'. gerar_escala_anual 2026
        (\<lparr>lista_diaconos = [''A'', ''B''], escala_gerada = [], chaves_usadas = [],
           chave_semanal = Map.empty\<rparr>, \<lparr>draws = (\<lambda>_. 0), cursor = 0\<rparr>) = (Inr esc, s')
      \<and> papeis_na_data esc 739619 =
            [(''chave'', ''sabado''), (''oferta'', ''sabado''), (''oferta'', ''sabado'')])"
proof -
  let ?s = "(\<lparr>lista_diaconos = [''A'', ''B''], escala_gerada = [], chaves_usadas = [],
           chave_semanal = Map.empty\<rparr>, \<lparr>draws = (\<lambda>_. 0), cursor = 0\<rparr>)"
  note t = gerar_escala_anual_atribuicoes [of 2026 "fst ?s" "snd ?s"]
  have d: "primeiro_dia 2026 \<le> 739619 \<and> 739619 \<le> ultimo_dia 2026" "weekday 739619 = 5"
    by (simp_all add: primeiro_dia_eq ultimo_dia_eq days_before_year_def is_leap_def weekday_def)
  from t obtain esc s' where r: "gerar_escala_anual 2026 ?s = (Inr esc, s')" by auto
  from t r d have "papeis_na_data esc 739619 =
            [(''chave'', ''sabado''), (''oferta'', ''sabado''), (''oferta'', ''sabado'')]"
    by simp
  with r d show ?thesis by auto
qed

section \<open>Annual generation: the week's primary volunteer\<close>

lemma chaves_na_data_append:
  "chaves_na_data (xs @ ys) d = chaves_na_data xs d @ chaves_na_data ys d"
  by (simp add: chaves_na_data_def)

lemma chaves_na_data_fora:
  "\<forall>a \<in> set xs. data a \<noteq> Some d \<Longrightarrow> chaves_na_data xs d = []"
  by (simp add: chaves_na_data_def filter_empty_conv)

lemma encontrar_sabado_menor:
  "encontrar_sabado_semana d = Inr (Some s) \<Longrightarrow> s < d"
  by (auto simp: encontrar_sabado_semana_def date_add_def Let_def split: if_splits)

lemma invariante_inicio:
  "escala_gerada gen = [] \<Longrightarrow> chave_semanal gen = Map.empty \<Longrightarrow> invariante_anual [] gen"
  by (simp add: invariante_anual_def)

lemma passo_invariante_sabado:
  assumes inv: "invariante_anual feitas gen"
    and novo: "\<forall>p \<in> set feitas. fst p < d"
    and step: "adicionar_escala_sabado_anual d (gen, g) = (Inr (), (gen', g'))"
  shows "invariante_anual (feitas @ [(d, ''sabado'')]) gen'"
proof -
  from sabado_anual_frame(3)[OF step refl] obtain x y z where
    e: "escala_gerada gen' = escala_gerada gen @
           [\<lparr>nome = x, funcao = ''chave'', dia = ''sabado'', data = Some d\<rparr>,
            \<lparr>nome = y, funcao = ''oferta'', dia = ''sabado'', data = Some d\<rparr>,
            \<lparr>nome = z, funcao = ''oferta'', dia = ''sabado'', data = Some d\<rparr>]"
    and c: "chave_semanal gen' = (chave_semanal gen)(d \<mapsto> x)" by blast
  let ?esc = "escala_gerada gen"
  from inv have i1: "\<forall>a \<in> set ?esc. \<exists>p \<in> set feitas. data a = Some (fst p)"
    and i2: "\<And>s n. chave_semanal gen s = Some n \<Longrightarrow>
          (s, ''sabado'') \<in> set feitas \<and> chaves_na_data ?esc s = [n]"
    and i3: "\<And>s. (s, ''sabado'') \<in> set feitas \<Longrightarrow> chave_semanal gen s \<noteq> None"
    and i4: "\<And>p s. p \<in> set feitas \<Longrightarrow> snd p \<noteq> ''sabado'' \<Longrightarrow>
          encontrar_sabado_semana (fst p) = Inr (Some s) \<Longrightarrow> (s, ''sabado'') \<in> set feitas \<Longrightarrow>
             chaves_na_data ?esc (fst p) = chaves_na_data ?esc s"
    by (auto simp: invariante_anual_def)
  have fora: "chaves_na_data ?esc d = []"
    using i1 novo by (intro chaves_na_data_fora) fastforce
  have em_d: "chaves_na_data (escala_gerada gen') d = [x]"
    by (simp add: e chaves_na_data_append fora) (simp add: chaves_na_data_def)
  have outro: "\<And>t. t \<noteq> d \<Longrightarrow> chaves_na_data (escala_gerada gen') t = chaves_na_data ?esc t"
    by (simp add: e chaves_na_data_append) (simp add: chaves_na_data_def)
  have j1: "\<forall>a \<in> set (escala_gerada gen'). \<exists>p \<in> set (feitas @ [(d, ''sabado'')]). data a = Some (fst p)"
    using i1 by (auto simp: e)
  have j2: "\<forall>s n. chave_semanal gen' s = Some n \<longrightarrow>
          (s, ''sabado'') \<in> set (feitas @ [(d, ''sabado'')]) \<and> chaves_na_data (escala_gerada gen') s = [n]"
  proof (intro allI impI)
    fix s n assume a: "chave_semanal gen' s = Some n"
    show "(s, ''sabado'') \<in> set (feitas @ [(d, ''sabado'')]) \<and> chaves_na_data (escala_gerada gen') s = [n]"
    proof (cases "s = d")
      case True
      with a c have "n = x" by simp
      with True em_d show ?thesis by simp
    next
      case False
      with a c have "chave_semanal gen s = Some n" by simp
      from i2[OF this] outro[OF False] show ?thesis by simp
    qed
  qed
  have j3: "\<forall>s. (s, ''sabado'') \<in> set (feitas @ [(d, ''sabado'')]) \<longrightarrow> chave_semanal gen' s \<noteq> None"
    using i3 c by auto
  have j4: "\<forall>p \<in> set (feitas @ [(d, ''sabado'')]). snd p \<noteq> ''sabado'' \<longrightarrow>
          (\<forall>s. encontrar_sabado_semana (fst p) = Inr (Some s) \<longrightarrow>
             (s, ''sabado'') \<in> set (feitas @ [(d, ''sabado'')]) \<longrightarrow>
             chaves_na_data (escala_gerada gen') (fst p) = chaves_na_data (escala_gerada gen') s)"
  proof (intro ballI impI allI)
    fix p s
    assume p: "p \<in> set (feitas @ [(d, ''sabado'')])" "snd p \<noteq> ''sabado''"
      and s: "encontrar_sabado_semana (fst p) = Inr (Some s)"
             "(s, ''sabado'') \<in> set (feitas @ [(d, ''sabado'')])"
    from p have pf: "p \<in> set feitas" by auto
    with novo have pd: "fst p < d" by simp
    from encontrar_sabado_menor[OF s(1)] pd have sd: "s \<noteq> d" by simp
    with s(2) have sf: "(s, ''sabado'') \<in> set feitas" by simp
    from pd have "fst p \<noteq> d" by simp
    from outro[OF this] outro[OF sd] i4[OF pf p(2) s(1) sf]
    show "chaves_na_data (escala_gerada gen') (fst p) = chaves_na_data (escala_gerada gen') s"
      by simp
  qed
  show ?thesis unfolding invariante_anual_def by (intro conjI j1 j2 j3 j4)
qed

lemma passo_invariante_dia:
  assumes inv: "invariante_anual feitas gen"
    and novo: "\<forall>p \<in> set feitas. fst p < d"
    and k: "k \<noteq> ''sabado''"
    and step: "adicionar_escala_dia_anual k d (gen, g) = (Inr (), (gen', g'))"
  shows "invariante_anual (feitas @ [(d, k)]) gen'"
proof -
  from dia_anual_frame(4)[OF step refl] obtain x where
    e: "escala_gerada gen' = escala_gerada gen @
           [\<lparr>nome = x, funcao = ''chave'', dia = k, data = Some d\<rparr>]"
    and lig: "\<And>sab n. encontrar_sabado_semana d = Inr (Some sab) \<Longrightarrow>
               chave_semanal gen sab = Some n \<Longrightarrow> x = n" by blast
  note c = dia_anual_frame(2)[OF step]
  let ?esc = "escala_gerada gen"
  from inv have i1: "\<forall>a \<in> set ?esc. \<exists>p \<in> set feitas. data a = Some (fst p)"
    and i2: "\<And>s n. chave_semanal gen s = Some n \<Longrightarrow>
          (s, ''sabado'') \<in> set feitas \<and> chaves_na_data ?esc s = [n]"
    and i3: "\<And>s. (s, ''sabado'') \<in> set feitas \<Longrightarrow> chave_semanal gen s \<noteq> None"
    and i4: "\<And>p s. p \<in> set feitas \<Longrightarrow> snd p \<noteq> ''sabado'' \<Longrightarrow>
          encontrar_sabado_semana (fst p) = Inr (Some s) \<Longrightarrow> (s, ''sabado'') \<in> set feitas \<Longrightarrow>
             chaves_na_data ?esc (fst p) = chaves_na_data ?esc s"
    by (auto simp: invariante_anual_def)
  have fora: "chaves_na_data ?esc d = []"
    using i1 novo by (intro chaves_na_data_fora) fastforce
  have em_d: "chaves_na_data (escala_gerada gen') d = [x]"
    by (simp add: e chaves_na_data_append fora) (simp add: chaves_na_data_def)
  have outro: "\<And>t. t \<noteq> d \<Longrightarrow> chaves_na_data (escala_gerada gen') t = chaves_na_data ?esc t"
    by (simp add: e chaves_na_data_append) (simp add: chaves_na_data_def)
  have feito: "\<And>s. (s, ''sabado'') \<in> set (feitas @ [(d, k)]) \<Longrightarrow> (s, ''sabado'') \<in> set feitas \<and> s \<noteq> d"
    using k novo by fastforce
  have j1: "\<forall>a \<in> set (escala_gerada gen'). \<exists>p \<in> set (feitas @ [(d, k)]). data a = Some (fst p)"
    using i1 by (auto simp: e)
  have j2: "\<forall>s n. chave_semanal gen' s = Some n \<longrightarrow>
          (s, ''sabado'') \<in> set (feitas @ [(d, k)]) \<and> chaves_na_data (escala_gerada gen') s = [n]"
  proof (intro allI impI)
    fix s n assume "chave_semanal gen' s = Some n"
    with c have a: "chave_semanal gen s = Some n" by simp
    from i2[OF a] have sf: "(s, ''sabado'') \<in> set feitas" and cn: "chaves_na_data ?esc s = [n]"
      by simp_all
    from sf novo have "s \<noteq> d" by fastforce
    from outro[OF this] sf cn
    show "(s, ''sabado'') \<in> set (feitas @ [(d, k)]) \<and> chaves_na_data (escala_gerada gen') s = [n]"
      by simp
  qed
  have j3: "\<forall>s. (s, ''sabado'') \<in> set (feitas @ [(d, k)]) \<longrightarrow> chave_semanal gen' s \<noteq> None"
  proof (intro allI impI)
    fix s assume "(s, ''sabado'') \<in> set (feitas @ [(d, k)])"
    from feito[OF this] have "(s, ''sabado'') \<in> set feitas" by simp
    from i3[OF this] c show "chave_semanal gen' s \<noteq> None" by simp
  qed
  have j4: "\<forall>p \<in> set (feitas @ [(d, k)]). snd p \<noteq> ''sabado'' \<longrightarrow>
          (\<forall>s. encontrar_sabado_semana (fst p) = Inr (Some s) \<longrightarrow>
             (s, ''sabado'') \<in> set (feitas @ [(d, k)]) \<longrightarrow>
             chaves_na_data (escala_gerada gen') (fst p) = chaves_na_data (escala_gerada gen') s)"
  proof (intro ballI impI allI)
    fix p s
    assume p: "p \<in> set (feitas @ [(d, k)])" "snd p \<noteq> ''sabado''"
      and s: "encontrar_sabado_semana (fst p) = Inr (Some s)"
             "(s, ''sabado'') \<in> set (feitas @ [(d, k)])"
    from feito[OF s(2)] have sf: "(s, ''sabado'') \<in> set feitas" and sd: "s \<noteq> d" by simp_all
    show "chaves_na_data (escala_gerada gen') (fst p) = chaves_na_data (escala_gerada gen') s"
    proof (cases "p \<in> set feitas")
      case True
      with novo have "fst p \<noteq> d" by fastforce
      from outro[OF this] outro[OF sd] i4[OF True p(2) s(1) sf] show ?thesis by simp
    next
      case False
      with p(1) have pe: "p = (d, k)" by simp
      from i3[OF sf] obtain n where n: "chave_semanal gen s = Some n" by blast
      from s(1) pe have "encontrar_sabado_semana d = Inr (Some s)" by simp
      from lig[OF this n] have "x = n" .
      with em_d outro[OF sd] i2[OF n] pe show ?thesis by simp
    qed
  qed
  show ?thesis unfolding invariante_anual_def by (intro conjI j1 j2 j3 j4)
qed

lemma processar_invariante:
  "invariante_anual feitas gen \<Longrightarrow> sorted_wrt (<) (map fst (feitas @ tds)) \<Longrightarrow>
   processar_datas tds (gen, g) = (Inr (), (gen', g')) \<Longrightarrow>
   invariante_anual (feitas @ tds) gen'"
proof (induction tds arbitrary: feitas gen g)
  case Nil
  then show ?case by simp
next
  case (Cons p tds)
  obtain d k where p: "p = (d, k)" by (cases p)
  obtain r1 gen1 g1 where
    s: "(if k = ''sabado'' then adicionar_escala_sabado_anual d (gen, g)
            else adicionar_escala_dia_anual k d (gen, g)) = (r1, (gen1, g1))"
    by (metis prod.exhaust)
  from Cons.prems(3) p s have r1: "r1 = Inr ()"
    by (cases r1) (auto split: if_splits)
  from Cons.prems(3) p s r1 have rest: "processar_datas tds (gen1, g1) = (Inr (), (gen', g'))"
    by (auto split: if_splits)
  from Cons.prems(2) p have novo: "\<forall>q \<in> set feitas. fst q < d"
    by (auto simp: sorted_wrt_append)
  have i: "invariante_anual (feitas @ [(d, k)]) gen1"
  proof (cases "k = ''sabado''")
    case True
    with s r1 have "adicionar_escala_sabado_anual d (gen, g) = (Inr (), (gen1, g1))" by simp
    from passo_invariante_sabado[OF Cons.prems(1) novo this] True show ?thesis by simp
  next
    case False
    with s r1 have "adicionar_escala_dia_anual k d (gen, g) = (Inr (), (gen1, g1))" by simp
    from passo_invariante_dia[OF Cons.prems(1) novo False this] show ?thesis .
  qed
  from Cons.prems(2) p have "sorted_wrt (<) (map fst ((feitas @ [(d, k)]) @ tds))" by simp
  from Cons.IH[OF i this rest] p show ?case by simp
qed

lemma gerar_anual_semana:
  assumes r: "gerar_escala_anual ano (gen, g) = (Inr esc, s')"
    and s: "primeiro_dia ano \<le> sab" "sab + 4 \<le> ultimo_dia ano" "weekday sab = 5"
  shows "\<exists>n. chaves_na_data esc sab = [n] \<and> chaves_na_data esc (sab + 1) = [n]
            \<and> chaves_na_data esc (sab + 4) = [n]"
proof -
  let ?gen0 = "gen\<lparr>escala_gerada := [], chaves_usadas := [], chave_semanal := Map.empty\<rparr>"
  from gerar_anual_Inr[OF r] obtain gen' g' where
    a: "1 \<le> ano" "ano \<le> 9998" and
    p: "processar_datas (datas_do_ano ano) (?gen0, g) = (Inr (), (gen', g'))"
       "esc = escala_gerada gen'" by blast
  have "invariante_anual ([] @ datas_do_ano ano) gen'"
    using datas_do_ano_sorted[of ano]
    by (intro processar_invariante[OF invariante_inicio _ p(1)]) simp_all
  then have inv: "invariante_anual (datas_do_ano ano) gen'" by simp
  have lo: "0 < sab" using days_before_year_pos[OF a(1)] s(1) by (simp add: primeiro_dia_eq)
  have hi: "sab + 4 \<le> MAXORDINAL"
    using days_before_year_max[OF a] s(2) by (simp add: ultimo_dia_eq split: if_splits)
  have w1: "weekday (sab + 1) = 6" and w4: "weekday (sab + 4) = 2"
    using s(3) by (simp_all add: weekday_def) presburger+
  have ms: "(sab, ''sabado'') \<in> set (datas_do_ano ano)"
    and md: "(sab + 1, ''domingo'') \<in> set (datas_do_ano ano)"
    and mq: "(sab + 4, ''quarta'') \<in> set (datas_do_ano ano)"
    using s w1 w4 by (simp_all add: datas_do_ano_set)
  have e1: "encontrar_sabado_semana (sab + 1) = Inr (Some sab)"
    using encontrar_sabado_domingo[OF w1] lo hi by simp
  have e4: "encontrar_sabado_semana (sab + 4) = Inr (Some sab)"
    using encontrar_sabado_quarta[OF w4] lo hi by simp
  from inv ms obtain n where n: "chave_semanal gen' sab = Some n"
    unfolding invariante_anual_def by blast
  with inv have c: "chaves_na_data esc sab = [n]"
    unfolding invariante_anual_def p(2) by blast
  from inv md e1 ms have c1: "chaves_na_data esc (sab + 1) = chaves_na_data esc sab"
    unfolding invariante_anual_def p(2) by force
  from inv mq e4 ms have c4: "chaves_na_data esc (sab + 4) = chaves_na_data esc sab"
    unfolding invariante_anual_def p(2) by force
  from c c1 c4 show ?thesis by simp
qed

text \<open>
  C2. In every schedule \<open>gerar_escala_anual\<close> returns, for every Saturday of the
  year whose following Sunday and Wednesday are in the year too, the Saturday, the Sunday
  (one day later) and the Wednesday (four days later) each have exactly one assignment with
  role chave, and the three carry the same name: the one the rotation picked for the
  Saturday. A schedule is returned for every non-empty roster and every year from 2 to
  9998.
\<close>

theorem gerar_escala_anual_chave_da_semana:
  "(\<forall>esc s'. gerar_escala_anual ano (gen, g) = (Inr esc, s') \<longrightarrow>
      (\<forall>sab. primeiro_dia ano \<le> sab \<and> sab + 4 \<le> ultimo_dia ano \<and> weekday sab = 5 \<longrightarrow>
         (\<exists>n. chaves_na_data esc sab = [n] \<and> chaves_na_data esc (sab + 1) = [n]
            \<and> chaves_na_data esc (sab + 4) = [n])))
   \<and> (lista_diaconos gen \<noteq> [] \<and> 2 \<le> ano \<and> ano \<le> 9998 \<longrightarrow>
        (\<exists>esc s'. gerar_escala_anual ano (gen, g) = (Inr esc, s')))"
  using gerar_anual_semana[of ano gen g] gerar_anual_ok[of gen ano g] by blast

theorem gerar_escala_anual_chave_da_semana_witness:
  "[''A'', ''B''] \<noteq> [] \<and> (2::int) \<le> 2026 \<and> (2026::int) \<le> 9998 \<and>
   primeiro_dia 2026 \<le> 739619 \<and> 739619 + 4 \<le> ultimo_dia 2026 \<and> weekday 739619 = 5 \<and>
   (\<exists>esc s'. gerar_escala_anual 2026
        (\<lparr>lista_diaconos = [''A'', ''B''], escala_gerada = [], chaves_usadas = [],
           chave_semanal = Map.empty\<rparr>, \<lparr>draws = (\<lambda>_. 0), cursor = 0\<rparr>) = (Inr esc, s')
      \<and> (\<exists>n. chaves_na_data esc 739619 = [n] \<and> chaves_na_data esc (739619 + 1) = [n]
            \<and> chaves_na_data esc (739619 + 4) = [n]))"
proof -
  let ?gen = "\<lparr>lista_diaconos = [''A'', ''B''], escala_gerada = [], chaves_usadas = [],
           chave_semanal = Map.empty\<rparr>"
  let ?g = "\<lparr>draws = (\<lambda>_. 0), cursor = 0\<rparr>"
  note t = gerar_escala_anual_chave_da_semana [of 2026 ?gen ?g]
  have d: "primeiro_dia 2026 \<le> 739619 \<and> 739619 + 4 \<le> ultimo_dia 2026 \<and> weekday 739619 = 5"
    by (simp add: primeiro_dia_eq ultimo_dia_eq days_before_year_def is_leap_def weekday_def)
  from t obtain esc s' where r: "gerar_escala_anual 2026 (?gen, ?g) = (Inr esc, s')" by auto
  from t r have "\<forall>sab. primeiro_dia 2026 \<le> sab \<and> sab + 4 \<le> ultimo_dia 2026 \<and> weekday sab = 5 \<longrightarrow>
         (\<exists>n. chaves_na_data esc sab = [n] \<and> chaves_na_data esc (sab + 1) = [n]
            \<and> chaves_na_data esc (sab + 4) = [n])"
    by blast
  with d have "\<exists>n. chaves_na_data esc 739619 = [n] \<and> chaves_na_data esc (739619 + 1) = [n]
            \<and> chaves_na_data esc (739619 + 4) = [n]"
    by blast
  with r d show ?thesis by auto
qed

section \<open>Grouping queries: the groups partition the schedule\<close>

lemma agrupar_ok:
  "\<forall>a \<in> set xs. campo a \<in> dom m \<Longrightarrow>
   agrupar campo xs m = Inr (\<lambda>k. map_option (\<lambda>ds. ds @ filter (\<lambda>a. campo a = k) xs) (m k))"
proof (induction xs arbitrary: m)
  case Nil
  have "(\<lambda>k. map_option (\<lambda>ds. ds) (m k)) = m"
    by (rule ext) (simp add: option.map_ident)
  then show ?case by simp
next
  case (Cons a xs)
  from Cons.prems obtain ds where ds: "m (campo a) = Some ds" by auto
  let ?m = "m(campo a \<mapsto> ds @ [a])"
  have "\<forall>b \<in> set xs. campo b \<in> dom ?m" using Cons.prems by auto
  from Cons.IH[OF this] have
    "agrupar campo xs ?m = Inr (\<lambda>k. map_option (\<lambda>ds. ds @ filter (\<lambda>a. campo a = k) xs) (?m k))" .
  moreover have "(\<lambda>k. map_option (\<lambda>ds. ds @ filter (\<lambda>a. campo a = k) xs) (?m k))
      = (\<lambda>k. map_option (\<lambda>ds. ds @ filter (\<lambda>b. campo b = k) (a # xs)) (m k))"
    by (rule ext) (auto simp: ds)
  ultimately show ?case by (simp add: ds)
qed

lemma por_dia_validos:
  assumes "list_all registro_valido (escala_gerada gen)"
  shows "obter_escala_por_dia gen =
     Inr [''domingo'' \<mapsto> filter (\<lambda>a. dia a = ''domingo'') (escala_gerada gen),
          ''quarta'' \<mapsto> filter (\<lambda>a. dia a = ''quarta'') (escala_gerada gen),
          ''sabado'' \<mapsto> filter (\<lambda>a. dia a = ''sabado'') (escala_gerada gen)]"
proof -
  let ?m = "map_of (map (\<lambda>d. (d, [])) DIAS_ESCALA) :: string \<rightharpoonup> DiaconoEscala list"
  have "\<forall>a \<in> set (escala_gerada gen). dia a \<in> dom ?m"
    using assms by (auto simp: list_all_iff registro_valido_def DIAS_ESCALA_def)
  from agrupar_ok[OF this] show ?thesis
    unfolding obter_escala_por_dia_def
    by (auto simp: DIAS_ESCALA_def fun_eq_iff)
qed

lemma por_funcao_validos:
  assumes "list_all registro_valido (escala_gerada gen)"
  shows "obter_escala_por_funcao gen =
     Inr [''chave'' \<mapsto> filter (\<lambda>a. funcao a = ''chave'') (escala_gerada gen),
          ''oferta'' \<mapsto> filter (\<lambda>a. funcao a = ''oferta'') (escala_gerada gen)]"
proof -
  let ?m = "[''chave'' \<mapsto> [], ''oferta'' \<mapsto> []] :: string \<rightharpoonup> DiaconoEscala list"
  have "\<forall>a \<in> set (escala_gerada gen). funcao a \<in> dom ?m"
    using assms by (auto simp: list_all_iff registro_valido_def)
  from agrupar_ok[OF this] show ?thesis
    unfolding obter_escala_por_funcao_def
    by (auto simp: fun_eq_iff)
qed

lemma particao_por_dia:
  "list_all registro_valido esc \<Longrightarrow>
   mset (filter (\<lambda>a. dia a = ''domingo'') esc @ filter (\<lambda>a. dia a = ''quarta'') esc
         @ filter (\<lambda>a. dia a = ''sabado'') esc) = mset esc"
  by (induction esc) (auto simp: registro_valido_def DIAS_ESCALA_def)

lemma particao_por_funcao:
  "list_all registro_valido esc \<Longrightarrow>
   mset (filter (\<lambda>a. funcao a = ''chave'') esc @ filter (\<lambda>a. funcao a = ''oferta'') esc)
     = mset esc"
  by (induction esc) (auto simp: registro_valido_def)

lemma anual_registros_validos:
  "list_all registro_valido (escala_gerada (fst (snd (gerar_escala_anual ano (gen, g)))))"
proof (cases "1 \<le> ano \<and> ano \<le> 9998")
  case False
  from gerar_anual_fora[OF this, of gen g] show ?thesis by auto
next
  case True
  then have a: "1 \<le> ano" "ano \<le> 9998" by simp_all
  let ?gen0 = "gen\<lparr>escala_gerada := [], chaves_usadas := [], chave_semanal := Map.empty\<rparr>"
  obtain r gen' g' where p: "processar_datas (datas_do_ano ano) (?gen0, g) = (r, (gen', g'))"
    by (metis prod.exhaust)
  have s: "snd (gerar_escala_anual ano (gen, g)) = (gen', g')"
    unfolding gerar_anual_no_intervalo[OF a] p by (cases r) simp_all
  from processar_frame[OF p] obtain novos where
    n: "escala_gerada gen' = novos"
       "\<forall>a \<in> set novos. \<exists>(d, k) \<in> set (datas_do_ano ano). data a = Some d
              \<and> (funcao a = ''chave'' \<and> dia a = k
                  \<or> funcao a = ''oferta'' \<and> dia a = ''sabado'' \<and> k = ''sabado'')"
    by auto
  have "\<forall>a \<in> set novos. registro_valido a"
  proof
    fix a assume "a \<in> set novos"
    with n(2) obtain d k where dk: "(d, k) \<in> set (datas_do_ano ano)"
      "funcao a = ''chave'' \<and> dia a = k \<or> funcao a = ''oferta'' \<and> dia a = ''sabado'' \<and> k = ''sabado''"
      by blast
    from dk(1) have "k \<in> set DIAS_ESCALA" by (auto simp: datas_do_ano_set DIAS_ESCALA_def)
    with dk(2) show "registro_valido a" by (auto simp: registro_valido_def)
  qed
  then show ?thesis by (simp add: s n(1) list_all_iff)
qed

text \<open>
  C10. After a call to either generation method, whatever its outcome, every assignment on
  the instance has its day among domingo, quarta and sabado and its role among chave and
  oferta. So neither grouping query raises KeyError: \<open>obter_escala_por_dia\<close> returns
  the dictionary with exactly the three days as keys and \<open>obter_escala_por_funcao\<close>
  the one with exactly the two roles, each key holding the assignments of the schedule with
  that day (that role), in schedule order. The groups of either query together hold every
  assignment of the schedule as often as the schedule does, and an assignment is in no
  group but the one of its own day (role): a partition.
\<close>

theorem obter_escala_particiona:
  assumes "gen' = fst (snd (gerar_escala_anual ano (gen, g)))
         \<or> gen' = fst (snd (gerar_escala_semanal evitar_repeticao (gen, g)))"
  shows "list_all registro_valido (escala_gerada gen')
    \<and> obter_escala_por_dia gen' =
        Inr [''domingo'' \<mapsto> filter (\<lambda>a. dia a = ''domingo'') (escala_gerada gen'),
             ''quarta'' \<mapsto> filter (\<lambda>a. dia a = ''quarta'') (escala_gerada gen'),
             ''sabado'' \<mapsto> filter (\<lambda>a. dia a = ''sabado'') (escala_gerada gen')]
    \<and> mset (filter (\<lambda>a. dia a = ''domingo'') (escala_gerada gen')
             @ filter (\<lambda>a. dia a = ''quarta'') (escala_gerada gen')
             @ filter (\<lambda>a. dia a = ''sabado'') (escala_gerada gen')) = mset (escala_gerada gen')
    \<and> obter_escala_por_funcao gen' =
        Inr [''chave'' \<mapsto> filter (\<lambda>a. funcao a = ''chave'') (escala_gerada gen'),
             ''oferta'' \<mapsto> filter (\<lambda>a. funcao a = ''oferta'') (escala_gerada gen')]
    \<and> mset (filter (\<lambda>a. funcao a = ''chave'') (escala_gerada gen')
             @ filter (\<lambda>a. funcao a = ''oferta'') (escala_gerada gen')) = mset (escala_gerada gen')"
proof -
  from assms have v: "list_all registro_valido (escala_gerada gen')"
    using anual_registros_validos[of ano gen g] semanal_registros_validos[of evitar_repeticao gen g]
    by auto
  from v por_dia_validos[OF v] particao_por_dia[OF v] por_funcao_validos[OF v]
    particao_por_funcao[OF v]
  show ?thesis by (intro conjI)
qed

theorem obter_escala_particiona_witness:
  "obter_escala_por_dia (fst (snd (gerar_escala_semanal True
        (\<lparr>lista_diaconos = [''A'', ''B''], escala_gerada = [], chaves_usadas = [],
           chave_semanal = Map.empty\<rparr>, \<lparr>draws = (\<lambda>_. 0), cursor = 0\<rparr>)))) =
     Inr [''domingo'' \<mapsto> [\<lparr>nome = ''A'', funcao = ''chave'', dia = ''domingo'', data = None\<rparr>,
                          \<lparr>nome = ''B'', funcao = ''oferta'', dia = ''domingo'', data = None\<rparr>],
          ''quarta'' \<mapsto> [\<lparr>nome = ''A'', funcao = ''chave'', dia = ''quarta'', data = None\<rparr>,
                         \<lparr>nome = ''B'', funcao = ''oferta'', dia = ''quarta'', data = None\<rparr>],
          ''sabado'' \<mapsto> [\<lparr>nome = ''A'', funcao = ''chave'', dia = ''sabado'', data = None\<rparr>,
                         \<lparr>nome = ''B'', funcao = ''oferta'', dia = ''sabado'', data = None\<rparr>]]
   \<and> obter_escala_por_funcao (fst (snd (gerar_escala_semanal True
        (\<lparr>lista_diaconos = [''A'', ''B''], escala_gerada = [], chaves_usadas = [],
           chave_semanal = Map.empty\<rparr>, \<lparr>draws = (\<lambda>_. 0), cursor = 0\<rparr>)))) =
     Inr [''chave'' \<mapsto> [\<lparr>nome = ''A'', funcao = ''chave'', dia = ''domingo'', data = None\<rparr>,
                        \<lparr>nome = ''A'', funcao = ''chave'', dia = ''quarta'', data = None\<rparr>,
                        \<lparr>nome = ''A'', funcao = ''chave'', dia = ''sabado'', data = None\<rparr>],
          ''oferta'' \<mapsto> [\<lparr>nome = ''B'', funcao = ''oferta'', dia = ''domingo'', data = None\<rparr>,
                         \<lparr>nome = ''B'', funcao = ''oferta'', dia = ''quarta'', data = None\<rparr>,
                         \<lparr>nome = ''B'', funcao = ''oferta'', dia = ''sabado'', data = None\<rparr>]]"
proof -
  let ?gen = "\<lparr>lista_diaconos = [''A'', ''B''], escala_gerada = [], chaves_usadas = [],
           chave_semanal = Map.empty\<rparr>"
  let ?g = "\<lparr>draws = (\<lambda>_. 0), cursor = 0\<rparr>"
  have e: "escala_gerada (fst (snd (gerar_escala_semanal True (?gen, ?g)))) =
     [\<lparr>nome = ''A'', funcao = ''chave'', dia = ''domingo'', data = None\<rparr>,
      \<lparr>nome = ''B'', funcao = ''oferta'', dia = ''domingo'', data = None\<rparr>,
      \<lparr>nome = ''A'', funcao = ''chave'', dia = ''quarta'', data = None\<rparr>,
      \<lparr>nome = ''B'', funcao = ''oferta'', dia = ''quarta'', data = None\<rparr>,
      \<lparr>nome = ''A'', funcao = ''chave'', dia = ''sabado'', data = None\<rparr>,
      \<lparr>nome = ''B'', funcao = ''oferta'', dia = ''sabado'', data = None\<rparr>]"
    by (simp add: gerar_escala_semanal_def adicionar_escala_dia_def adicionar_escala_sabado_def
        sortear_diacono_def random_choice_def remover_diacono_def nova_lista_def list_remove_def
        Let_def numeral_2_eq_2)
  from obter_escala_particiona [of "fst (snd (gerar_escala_semanal True (?gen, ?g)))" 2026 ?gen ?g True]
  show ?thesis unfolding e by simp
qed

section \<open>Runs with a seed: same roster, seed and year, same schedule\<close>

lemma executar_anual_semente:
  "executar_anual seeder lista (Some s) ano g =
     (if lista = [] then Inl ValueError_lista_vazia
      else fst (gerar_escala_anual ano
             (\<lparr>lista_diaconos = lista, escala_gerada = [], chaves_usadas = [],
                chave_semanal = Map.empty\<rparr>, seeder s)))"
  by (simp add: executar_anual_def init_def)

text \<open>
  C6. Two runs that construct a generator from the same roster and the same seed and
  generate the same year have the same outcome, whatever the state of the random source
  when each run starts: the same schedule, record by record and in the same order, when
  one is returned, and the same exception otherwise. A schedule is returned for every
  non-empty roster and every year from 2 to 9998.
\<close>

theorem execucoes_com_semente_identicas:
  "executar_anual seeder lista (Some s) ano g1 = executar_anual seeder lista (Some s) ano g2
   \<and> (lista \<noteq> [] \<and> 2 \<le> ano \<and> ano \<le> 9998 \<longrightarrow>
        (\<exists>esc. executar_anual seeder lista (Some s) ano g1 = Inr esc
             \<and> executar_anual seeder lista (Some s) ano g2 = Inr esc))"
proof (intro conjI impI)
  show e: "executar_anual seeder lista (Some s) ano g1 = executar_anual seeder lista (Some s) ano g2"
    by (simp add: executar_anual_semente)
  assume a: "lista \<noteq> [] \<and> 2 \<le> ano \<and> ano \<le> 9998"
  let ?gen = "\<lparr>lista_diaconos = lista, escala_gerada = [], chaves_usadas = [],
                chave_semanal = Map.empty\<rparr>"
  from a gerar_anual_ok[of ?gen ano "seeder s"] obtain esc s' where
    "gerar_escala_anual ano (?gen, seeder s) = (Inr esc, s')" by auto
  with a have "executar_anual seeder lista (Some s) ano g1 = Inr esc"
    by (simp add: executar_anual_semente)
  with e show "\<exists>esc. executar_anual seeder lista (Some s) ano g1 = Inr esc
             \<and> executar_anual seeder lista (Some s) ano g2 = Inr esc" by metis
qed

theorem execucoes_com_semente_identicas_witness:
  "[''A'', ''B''] \<noteq> [] \<and> (2::int) \<le> 2026 \<and> (2026::int) \<le> 9998 \<and>
   (\<exists>esc. executar_anual (\<lambda>s. \<lparr>draws = (\<lambda>i. nat \<bar>s\<bar> + i), cursor = 0\<rparr>) [''A'', ''B''] (Some 42) 2026
             \<lparr>draws = (\<lambda>_. 0), cursor = 0\<rparr> = Inr esc
        \<and> executar_anual (\<lambda>s. \<lparr>draws = (\<lambda>i. nat \<bar>s\<bar> + i), cursor = 0\<rparr>) [''A'', ''B''] (Some 42) 2026
             \<lparr>draws = (\<lambda>_. 1), cursor = 7\<rparr> = Inr esc)"
  using execucoes_com_semente_identicas [of "\<lambda>s. \<lparr>draws = (\<lambda>i. nat \<bar>s\<bar> + i), cursor = 0\<rparr>"
      "[''A'', ''B'']" 42 2026 "\<lparr>draws = (\<lambda>_. 0), cursor = 0\<rparr>" "\<lparr>draws = (\<lambda>_. 1), cursor = 7\<rparr>"]
  by auto

end
